theory Spec2Isabelle
  imports Main
begin

section \<open>Python values, exceptions and text\<close>

text \<open>
  The two scripts under \<^verbatim>\<open>src/client\<close> are Python.  Strings are modelled as
  \<^typ>\<open>string\<close> (byte lists; a character outside ASCII is written as its UTF-8 bytes),
  exceptions as values of \<open>pyexc\<close>, and a call that may raise returns \<open>pyexc + 'a\<close>
  with \<open>Inl\<close> for the exception.
\<close>

datatype exc_class =
    JSONDecodeError | AttributeError | TypeError | ValueError | RecursionError
  | EOFError | McpError | OSError | ExceptionGroup

datatype pyexc = PyExc (class_of: exc_class) (exc_msg: string)

text \<open>
  Every class above is a subclass of \<open>Exception\<close>, so \<open>except Exception\<close> catches every
  value of \<open>pyexc\<close>.  \<open>KeyboardInterrupt\<close> is not one of them: it is an event of the
  terminal (see \<open>stdin_event\<close> below), not the outcome of a call.
\<close>

text \<open>\<open>isinstance(e, ValueError)\<close>: \<open>JSONDecodeError\<close> is a subclass of \<open>ValueError\<close>.\<close>

definition is_ValueError :: "pyexc \<Rightarrow> bool" where
  "is_ValueError e = (class_of e = ValueError \<or> class_of e = JSONDecodeError)"

definition nl :: string where
  "nl = [CHR 0x0A]"

text \<open>\<open>sep.join(xs)\<close>\<close>

fun py_join :: "string \<Rightarrow> string list \<Rightarrow> string" where
  "py_join sep [] = []"
| "py_join sep [x] = x"
| "py_join sep (x # y # ys) = x @ sep @ py_join sep (y # ys)"

definition digit_char :: "nat \<Rightarrow> char" where
  "digit_char d = ''0123456789'' ! d"

fun str_nat :: "nat \<Rightarrow> string" where
  "str_nat n = (if n < 10 then [digit_char n] else str_nat (n div 10) @ [digit_char (n mod 10)])"

declare str_nat.simps [simp del]

definition str_int :: "int \<Rightarrow> string" where
  "str_int i = (if i < 0 then CHR ''-'' # str_nat (nat (- i)) else str_nat (nat i))"

text \<open>
  The values a \<open>text\<close> attribute is given in this development: a \<open>str\<close>, \<open>None\<close> or an
  \<open>int\<close>.  \<open>py_str\<close> is \<open>str(v)\<close> and \<open>type_name\<close> is \<open>type(v).__name__\<close>.
\<close>

datatype pyval = PyStr string | PyNone | PyInt int

fun py_str :: "pyval \<Rightarrow> string" where
  "py_str (PyStr s) = s"
| "py_str PyNone = ''None''"
| "py_str (PyInt i) = str_int i"

fun type_name :: "pyval \<Rightarrow> string" where
  "type_name (PyStr s) = ''str''"
| "type_name PyNone = ''NoneType''"
| "type_name (PyInt i) = ''int''"

section \<open>JSON values and the \<open>json\<close> module\<close>

text \<open>
  What \<open>json.loads\<close> returns: \<open>None\<close>, a \<open>bool\<close>, an \<open>int\<close>, a \<open>float\<close> (a finite
  double is \<open>m * 2 ^ e\<close>), a \<open>str\<close>, a \<open>list\<close> or a \<open>dict\<close> (in insertion order).
\<close>

datatype json =
    JNull | JBool bool | JInt int | JFloat int int | JString string
  | JArray "json list" | JObject "(string \<times> json) list"

text \<open>
  \<open>json.loads\<close> and \<open>json.dumps\<close> belong to the standard library, not to the repository:
  the parser on a \<open>str\<close> and the printer are parameters (\<open>loads\<close>, \<open>dumps\<close>) of everything
  below.  \<open>json_loads\<close> adds the type check \<open>json.loads\<close> makes before it parses: an
  argument that is not \<open>str\<close>, \<open>bytes\<close> or \<open>bytearray\<close> raises \<open>TypeError\<close>.
\<close>

type_synonym loads_fn = "string \<Rightarrow> pyexc + json"
type_synonym dumps_fn = "json \<Rightarrow> pyexc + string"

definition json_loads :: "loads_fn \<Rightarrow> pyval \<Rightarrow> pyexc + json" where
  "json_loads loads v =
     (case v of
        PyStr s \<Rightarrow> loads s
      | _ \<Rightarrow> Inl (PyExc TypeError
          (''the JSON object must be str, bytes or bytearray, not '' @ type_name v)))"

section \<open>\<open>format_mcp_result\<close> (client_stdio_toolcalls_interactive.py, lines 20-37)\<close>

text \<open>
  An element of \<open>result.content\<close>: \<open>item_text\<close> is its \<open>text\<close> attribute
  (\<open>None\<close> when \<open>hasattr(content_item, 'text')\<close> is false) and \<open>item_str\<close> is
  \<open>str(content_item)\<close>.  A result: \<open>content\<close> is its \<open>content\<close> attribute (\<open>None\<close> when
  \<open>hasattr(result, 'content')\<close> is false), which is a list of items or a value that
  cannot be iterated (such as \<open>None\<close>; \<open>NonIterable\<close> holds the name of its type);
  \<open>result_str\<close> is \<open>str(result)\<close>.
\<close>

datatype content_item = ContentItem (item_text: "pyval option") (item_str: string)

datatype content_value = Items "content_item list" | NonIterable string

datatype mcp_result = McpResult (content: "content_value option") (result_str: string)

text \<open>The body of the \<open>try\<close>: \<open>json.dumps(json.loads(content_item.text), indent=2)\<close>.\<close>

definition parse_and_dump :: "loads_fn \<Rightarrow> dumps_fn \<Rightarrow> pyval \<Rightarrow> pyexc + string" where
  "parse_and_dump loads dumps t =
     (case json_loads loads t of
        Inl e \<Rightarrow> Inl e
      | Inr parsed_content \<Rightarrow> dumps parsed_content)"

text \<open>\<open>except (json.JSONDecodeError, AttributeError)\<close>\<close>

definition caught :: "pyexc \<Rightarrow> bool" where
  "caught e = (class_of e = JSONDecodeError \<or> class_of e = AttributeError)"

text \<open>The \<open>for content_item in result.content\<close> loop, \<open>output\<close> being the list built so far.\<close>

fun format_items ::
  "loads_fn \<Rightarrow> dumps_fn \<Rightarrow> content_item list \<Rightarrow> string list \<Rightarrow> pyexc + string list" where
  "format_items loads dumps [] output = Inr output"
| "format_items loads dumps (content_item # rest) output =
     (case item_text content_item of
        Some t \<Rightarrow>
          (case parse_and_dump loads dumps t of
             Inr s \<Rightarrow> format_items loads dumps rest (output @ [s])
           | Inl e \<Rightarrow>
               if caught e then format_items loads dumps rest (output @ [py_str t])
               else Inl e)
      | None \<Rightarrow> format_items loads dumps rest (output @ [item_str content_item]))"

definition format_mcp_result :: "loads_fn \<Rightarrow> dumps_fn \<Rightarrow> mcp_result \<Rightarrow> pyexc + string" where
  "format_mcp_result loads dumps result =
     (case content result of
        Some c \<Rightarrow>
          (case c of
             NonIterable tn \<Rightarrow>
               Inl (PyExc TypeError (CHR 0x27 # tn @ CHR 0x27 # '' object is not iterable''))
           | Items xs \<Rightarrow>
               (case format_items loads dumps xs [] of
                  Inl e \<Rightarrow> Inl e
                | Inr output \<Rightarrow> Inr (py_join nl output)))
      | None \<Rightarrow> Inr (result_str result))"

section \<open>Output and session requests\<close>

text \<open>
  What a run of a script does, in order: \<open>Print s\<close> is \<open>print(s)\<close> (the line without the
  newline \<open>print\<close> adds), \<open>Call r\<close> is the call of the \<open>ClientSession\<close> method that sends
  request \<open>r\<close>, \<open>Prompted s\<close> is the prompt \<open>input(s)\<close> writes, \<open>Traceback e\<close> is
  \<open>traceback.print_exc()\<close>.  A \<open>run\<close> is the events of a
  piece of code and the exception that ended it, if one did.
\<close>

datatype argval = AStr string | AInt int | ABool bool

datatype request =
    Initialize | ListTools | ListResources | ListPrompts
  | CallTool string "(string \<times> argval) list" | ReadResource string

datatype event = Print string | Prompted string | Call request | Traceback pyexc

type_synonym run = "event list \<times> pyexc option"

definition skip :: run where
  "skip = ([], None)"

definition say :: "string \<Rightarrow> run" where
  "say s = ([Print s], None)"

definition call :: "request \<Rightarrow> run" where
  "call r = ([Call r], None)"

definition py_raise :: "pyexc \<Rightarrow> run" where
  "py_raise e = ([], Some e)"

text \<open>\<open>seq r1 r2\<close>: first \<open>r1\<close>, then \<open>r2\<close> unless \<open>r1\<close> raised.\<close>

definition seq :: "run \<Rightarrow> run \<Rightarrow> run" where
  "seq r1 r2 = (case snd r1 of None \<Rightarrow> (fst r1 @ fst r2, snd r2) | Some e \<Rightarrow> r1)"

text \<open>The requests among the events, in order; a run is \<open>quiet\<close> when it sends none.\<close>

fun requests :: "event list \<Rightarrow> request list" where
  "requests [] = []"
| "requests (Call r # es) = r # requests es"
| "requests (e # es) = requests es"

definition quiet :: "run \<Rightarrow> bool" where
  "quiet r = (requests (fst r) = [])"

definition check_mark :: string where
  "check_mark = [CHR 0xE2, CHR 0x9C, CHR 0x93]"

definition cross_mark :: string where
  "cross_mark = [CHR 0xE2, CHR 0x9C, CHR 0x97]"

definition wrench :: string where
  "wrench = [CHR 0xF0, CHR 0x9F, CHR 0x94, CHR 0xA7]"

definition file_folder :: string where
  "file_folder = [CHR 0xF0, CHR 0x9F, CHR 0x93, CHR 0x81]"

definition speech_balloon :: string where
  "speech_balloon = [CHR 0xF0, CHR 0x9F, CHR 0x92, CHR 0xAC]"

text \<open>\<open>"=" * 50\<close>\<close>

definition rule50 :: string where
  "rule50 = replicate 50 (CHR ''='')"

section \<open>\<open>_print_schema\<close> (client_stdio_inspect.py, lines 129-149)\<close>

text \<open>
  A schema is the Python value decoded from the server's JSON: a \<^typ>\<open>json\<close> value, a
  \<open>dict\<close> being a \<open>JObject\<close> with distinct keys.  \<open>str\<close> of a value that is not a string
  is its \<open>repr\<close>, a builtin taken as the parameter \<open>repr\<close>.
\<close>

definition str_json :: "(json \<Rightarrow> string) \<Rightarrow> json \<Rightarrow> string" where
  "str_json repr v = (case v of JString s \<Rightarrow> s | _ \<Rightarrow> repr v)"

fun json_type_name :: "json \<Rightarrow> string" where
  "json_type_name JNull = ''NoneType''"
| "json_type_name (JBool b) = ''bool''"
| "json_type_name (JInt i) = ''int''"
| "json_type_name (JFloat m e) = ''float''"
| "json_type_name (JString s) = ''str''"
| "json_type_name (JArray xs) = ''list''"
| "json_type_name (JObject d) = ''dict''"

text \<open>Truth value of a Python value, as \<open>if v:\<close> and \<open>not v\<close> read it.\<close>

fun py_truthy :: "json \<Rightarrow> bool" where
  "py_truthy JNull = False"
| "py_truthy (JBool b) = b"
| "py_truthy (JInt i) = (i \<noteq> 0)"
| "py_truthy (JFloat m e) = (m \<noteq> 0)"
| "py_truthy (JString s) = (s \<noteq> [])"
| "py_truthy (JArray xs) = (xs \<noteq> [])"
| "py_truthy (JObject d) = (d \<noteq> [])"

text \<open>
  \<open>', '.join(xs)\<close> on the elements of a list: every element must be a \<open>str\<close>; \<open>i\<close> is the
  index of the element at the head.
\<close>

fun str_items :: "nat \<Rightarrow> json list \<Rightarrow> pyexc + string list" where
  "str_items i [] = Inr []"
| "str_items i (JString s # rest) =
     (case str_items (Suc i) rest of Inl e \<Rightarrow> Inl e | Inr ss \<Rightarrow> Inr (s # ss))"
| "str_items i (v # rest) =
     Inl (PyExc TypeError (''sequence item '' @ str_nat i @ '': expected str instance, ''
       @ json_type_name v @ '' found''))"

text \<open>
  The characters of a \<open>str\<close>, each as its UTF-8 bytes: a lead byte with the continuation
  bytes (\<open>0x80\<close> to \<open>0xBF\<close>) that follow it.
\<close>

definition is_continuation :: "char \<Rightarrow> bool" where
  "is_continuation c = (128 \<le> (of_char c :: nat) \<and> (of_char c :: nat) < 192)"

function utf8_chars :: "string \<Rightarrow> string list" where
  "utf8_chars [] = []"
| "utf8_chars (c # cs) =
     (c # takeWhile is_continuation cs) # utf8_chars (dropWhile is_continuation cs)"
  by pat_completeness auto
termination
  by (relation "measure length") (simp_all add: length_dropWhile_le less_Suc_eq_le)

text \<open>
  \<open>', '.join(schema['required'])\<close>: a list is joined, a \<open>str\<close> is joined character by
  character, a \<open>dict\<close> is joined over its keys, anything else cannot be iterated.
\<close>

definition join_required :: "json \<Rightarrow> pyexc + string" where
  "join_required r =
     (case r of
        JArray xs \<Rightarrow>
          (case str_items 0 xs of Inl e \<Rightarrow> Inl e | Inr ss \<Rightarrow> Inr (py_join '', '' ss))
      | JString s \<Rightarrow> Inr (py_join '', '' (utf8_chars s))
      | JObject d \<Rightarrow> Inr (py_join '', '' (map fst d))
      | _ \<Rightarrow> Inl (PyExc TypeError ''can only join an iterable''))"

definition indent_str :: "nat \<Rightarrow> string" where
  "indent_str indent = replicate indent (CHR '' '')"

text \<open>
  \<open>_print_schema(schema, indent)\<close>.  The first argument after \<open>repr\<close> is the number of nested
  calls of \<open>_print_schema\<close> that the interpreter's recursion limit still allows: Python raises
  \<open>RecursionError\<close> on a call beyond it.  The function itself counts nothing and compares
  no depth.  \<open>print_properties\<close> is the loop over \<open>schema['properties'].items()\<close>.
\<close>

fun print_schema :: "(json \<Rightarrow> string) \<Rightarrow> nat \<Rightarrow> json \<Rightarrow> nat \<Rightarrow> run"
  and print_properties :: "(json \<Rightarrow> string) \<Rightarrow> nat \<Rightarrow> (string \<times> json) list \<Rightarrow> nat \<Rightarrow> run" where
  "print_schema repr 0 schema indent =
     py_raise (PyExc RecursionError ''maximum recursion depth exceeded'')"
| "print_schema repr (Suc limit) schema indent =
     (case schema of
        JObject d \<Rightarrow>
          seq (say (indent_str indent @ ''Type: '' @
                 str_json repr (case map_of d ''type'' of Some t \<Rightarrow> t | None \<Rightarrow> JString ''unknown'')))
         (seq (case map_of d ''properties'' of
                 None \<Rightarrow> skip
               | Some props \<Rightarrow>
                   seq (say (indent_str indent @ ''Properties:''))
                     (case props of
                        JObject ps \<Rightarrow> print_properties repr limit ps indent
                      | _ \<Rightarrow> py_raise (PyExc AttributeError
                          (CHR 0x27 # json_type_name props @ CHR 0x27 #
                             '' object has no attribute '' @ CHR 0x27 # ''items'' @ [CHR 0x27]))))
         (seq (case map_of d ''required'' of
                 None \<Rightarrow> skip
               | Some r \<Rightarrow>
                   (case join_required r of
                      Inl e \<Rightarrow> py_raise e
                    | Inr s \<Rightarrow> say (indent_str indent @ ''Required: '' @ s)))
              (case map_of d ''description'' of
                 None \<Rightarrow> skip
               | Some v \<Rightarrow> say (indent_str indent @ ''Description: '' @ str_json repr v))))
      | _ \<Rightarrow> say (indent_str indent @ str_json repr schema))"
| "print_properties repr limit [] indent = skip"
| "print_properties repr limit ((prop_name, prop_schema) # rest) indent =
     seq (say (indent_str indent @ ''  '' @ prop_name @ '':''))
    (seq (print_schema repr limit prop_schema (indent + 4))
         (print_properties repr limit rest indent))"

section \<open>The capability listings (client_stdio_inspect.py, lines 48-127)\<close>

text \<open>
  The objects the session returns.  An optional attribute is an \<open>option\<close>: \<open>None\<close> when
  the object has no such attribute or its value is \<open>None\<close>, which
  \<open>hasattr(x, 'a') and x.a\<close> does not tell apart.
\<close>

datatype tool =
  Tool (tool_name: string) (tool_description: "string option") (tool_inputSchema: "json option")

datatype tools_result = ToolsResult (tools_attr: "tool list option")

datatype resource =
  Resource (resource_uri: string) (resource_name: "string option")
    (resource_description: "string option") (resource_mimeType: "string option")

datatype resources_result = ResourcesResult (resources_attr: "resource list option")

datatype prompt_argument =
  PromptArgument (arg_name: string) (arg_description: "string option") (arg_required: "bool option")

datatype prompt =
  Prompt (prompt_name: string) (prompt_description: "string option")
    (prompt_arguments: "prompt_argument list option")

datatype prompts_result = PromptsResult (prompts_attr: "prompt list option")

text \<open>\<open>if hasattr(x, 'a') and x.a: print(f"{label}{x.a}")\<close> for a string attribute.\<close>

definition say_if_set :: "string \<Rightarrow> string option \<Rightarrow> run" where
  "say_if_set label a =
     (case a of Some s \<Rightarrow> (if s \<noteq> [] then say (label @ s) else skip) | None \<Rightarrow> skip)"

text \<open>\<open>f"{x}"\<close> for an attribute that is a string or \<open>None\<close>.\<close>

definition str_opt :: "string option \<Rightarrow> string" where
  "str_opt a = (case a of Some s \<Rightarrow> s | None \<Rightarrow> ''None'')"

text \<open>
  \<open>except Exception as e: print(f"... Error listing {what}: {e}")\<close> around the whole body
  of a listing function.
\<close>

definition handle_listing :: "string \<Rightarrow> run \<Rightarrow> run" where
  "handle_listing what r =
     (case snd r of
        None \<Rightarrow> r
      | Some e \<Rightarrow>
          (fst r @ [Print (cross_mark @ '' Error listing '' @ what @ '': '' @ exc_msg e)], None))"

text \<open>\<open>tools_result.tools if hasattr(tools_result, 'tools') else []\<close> (line 52), and its like.\<close>

definition tools_of :: "tools_result \<Rightarrow> tool list" where
  "tools_of tools_result = (case tools_attr tools_result of Some ts \<Rightarrow> ts | None \<Rightarrow> [])"

definition resources_of :: "resources_result \<Rightarrow> resource list" where
  "resources_of resources_result =
     (case resources_attr resources_result of Some rs \<Rightarrow> rs | None \<Rightarrow> [])"

definition prompts_of :: "prompts_result \<Rightarrow> prompt list" where
  "prompts_of prompts_result = (case prompts_attr prompts_result of Some ps \<Rightarrow> ps | None \<Rightarrow> [])"

text \<open>\<open>for i, tool in enumerate(tools, 1)\<close>\<close>

fun print_tools :: "(json \<Rightarrow> string) \<Rightarrow> nat \<Rightarrow> nat \<Rightarrow> tool list \<Rightarrow> run" where
  "print_tools repr limit i [] = skip"
| "print_tools repr limit i (tool # rest) =
     seq (say (str_nat i @ ''. '' @ tool_name tool))
    (seq (say_if_set ''   Description: '' (tool_description tool))
    (seq (case tool_inputSchema tool of
            None \<Rightarrow> skip
          | Some schema \<Rightarrow>
              if py_truthy schema
              then seq (say ''   Input Schema:'') (print_schema repr limit schema 6)
              else skip)
    (seq (say [])
         (print_tools repr limit (Suc i) rest))))"

definition list_tools :: "(json \<Rightarrow> string) \<Rightarrow> nat \<Rightarrow> pyexc + tools_result \<Rightarrow> run" where
  "list_tools repr limit reply =
     handle_listing ''tools''
       (seq (call ListTools)
         (case reply of
            Inl e \<Rightarrow> py_raise e
          | Inr tools_result \<Rightarrow>
              seq (say (wrench @ '' AVAILABLE TOOLS:''))
             (seq (say rule50)
                  (if tools_of tools_result = [] then say ''  No tools available''
                   else print_tools repr limit 1 (tools_of tools_result)))))"

fun print_resources :: "nat \<Rightarrow> resource list \<Rightarrow> run" where
  "print_resources i [] = skip"
| "print_resources i (resource # rest) =
     seq (say (str_nat i @ ''. '' @ resource_uri resource))
    (seq (say_if_set ''   Name: '' (resource_name resource))
    (seq (say_if_set ''   Description: '' (resource_description resource))
    (seq (say_if_set ''   MIME Type: '' (resource_mimeType resource))
    (seq (say [])
         (print_resources (Suc i) rest)))))"

definition list_resources :: "pyexc + resources_result \<Rightarrow> run" where
  "list_resources reply =
     handle_listing ''resources''
       (seq (call ListResources)
         (case reply of
            Inl e \<Rightarrow> py_raise e
          | Inr resources_result \<Rightarrow>
              seq (say (file_folder @ '' AVAILABLE RESOURCES:''))
             (seq (say rule50)
                  (if resources_of resources_result = [] then say ''  No resources available''
                   else print_resources 1 (resources_of resources_result)))))"

text \<open>\<open>for arg in prompt.arguments\<close>\<close>

fun print_arguments :: "prompt_argument list \<Rightarrow> run" where
  "print_arguments [] = skip"
| "print_arguments (arg # rest) =
     seq (say (''     - '' @ arg_name arg @ '': '' @ str_opt (arg_description arg)))
    (seq (if arg_required arg = Some True then say ''       (required)'' else skip)
         (print_arguments rest))"

fun print_prompts :: "nat \<Rightarrow> prompt list \<Rightarrow> run" where
  "print_prompts i [] = skip"
| "print_prompts i (prompt # rest) =
     seq (say (str_nat i @ ''. '' @ prompt_name prompt))
    (seq (say_if_set ''   Description: '' (prompt_description prompt))
    (seq (case prompt_arguments prompt of
            None \<Rightarrow> skip
          | Some args \<Rightarrow>
              if args \<noteq> [] then seq (say ''   Arguments:'') (print_arguments args) else skip)
    (seq (say [])
         (print_prompts (Suc i) rest))))"

definition list_prompts :: "pyexc + prompts_result \<Rightarrow> run" where
  "list_prompts reply =
     handle_listing ''prompts''
       (seq (call ListPrompts)
         (case reply of
            Inl e \<Rightarrow> py_raise e
          | Inr prompts_result \<Rightarrow>
              seq (say (speech_balloon @ '' AVAILABLE PROMPTS:''))
             (seq (say rule50)
                  (if prompts_of prompts_result = [] then say ''  No prompts available''
                   else print_prompts 1 (prompts_of prompts_result)))))"

section \<open>\<open>connect\<close> and \<open>inspect_server\<close> (client_stdio_inspect.py, lines 32-46 and 151-162)\<close>

text \<open>
  The server as the script meets it: whether the process can be started
  (\<open>spawn_error\<close>), what each request is answered with, and \<open>exit_raises\<close>: the exception
  that leaves the context managers of \<open>stdio_client\<close> and \<open>ClientSession\<close> when the code
  inside them raised \<open>e\<close> (they belong to the \<open>mcp\<close> package; their task groups raise an
  \<open>ExceptionGroup\<close> around it).
\<close>

datatype init_result =
  InitResult (serverInfo_name: string) (serverInfo_version: string) (protocolVersion: string)

datatype server =
  Server (spawn_error: "pyexc option")
    (initialize_reply: "pyexc + init_result")
    (list_tools_reply: "pyexc + tools_result")
    (list_resources_reply: "pyexc + resources_result")
    (list_prompts_reply: "pyexc + prompts_result")
    (exit_raises: "pyexc \<Rightarrow> pyexc")

text \<open>
  \<open>async with self.connect() as session: body\<close>.  The \<open>yield session\<close> stands inside the
  \<open>try\<close>, so an exception of the body is reported by the same handler and raised again;
  it then leaves the two context managers.  A failure to start the process is raised by
  \<open>stdio_client\<close> before either is entered.
\<close>

definition connect :: "server \<Rightarrow> run \<Rightarrow> run" where
  "connect srv body =
     (case spawn_error srv of
        Some e \<Rightarrow> py_raise e
      | None \<Rightarrow>
          (let r = seq (call Initialize)
                     (case initialize_reply srv of
                        Inl e \<Rightarrow> py_raise e
                      | Inr init_result \<Rightarrow>
                          seq (say (check_mark @ '' Connected to server: '' @ serverInfo_name init_result))
                         (seq (say (''  Version: '' @ serverInfo_version init_result))
                         (seq (say (''  Protocol Version: '' @ protocolVersion init_result @ nl))
                              body)))
           in case snd r of
                None \<Rightarrow> r
              | Some e \<Rightarrow>
                  (fst r @ [Print (cross_mark @ '' Failed to initialize session: '' @ exc_msg e)],
                   Some (exit_raises srv e))))"

definition inspect_server :: "(json \<Rightarrow> string) \<Rightarrow> nat \<Rightarrow> server \<Rightarrow> run" where
  "inspect_server repr limit srv =
     (let r = connect srv
                (seq (list_tools repr limit (list_tools_reply srv))
                (seq (say nl)
                (seq (list_resources (list_resources_reply srv))
                (seq (say nl)
                     (list_prompts (list_prompts_reply srv))))))
      in case snd r of
           None \<Rightarrow> r
         | Some e \<Rightarrow>
             (fst r @ [Print (cross_mark @ '' Error connecting to server: '' @ exc_msg e)], None))"

section \<open>The interactive session (client_stdio_toolcalls_interactive.py, lines 72-301)\<close>

text \<open>The pictographs of the menu, as their UTF-8 bytes.\<close>

definition link_sign :: string where
  "link_sign = [CHR 0xF0, CHR 0x9F, CHR 0x94, CHR 0x97]"

definition mobile_phone :: string where
  "mobile_phone = [CHR 0xF0, CHR 0x9F, CHR 0x93, CHR 0xB1]"

definition magnifier :: string where
  "magnifier = [CHR 0xF0, CHR 0x9F, CHR 0x94, CHR 0x8D]"

definition page_sign :: string where
  "page_sign = [CHR 0xF0, CHR 0x9F, CHR 0x93, CHR 0x84]"

definition clipboard :: string where
  "clipboard = [CHR 0xF0, CHR 0x9F, CHR 0x93, CHR 0x8B]"

definition magnifier_right :: string where
  "magnifier_right = [CHR 0xF0, CHR 0x9F, CHR 0x94, CHR 0x8E]"

definition outbox :: string where
  "outbox = [CHR 0xF0, CHR 0x9F, CHR 0x93, CHR 0xA4]"

definition thread_sign :: string where
  "thread_sign = [CHR 0xF0, CHR 0x9F, CHR 0xA7, CHR 0xB5]"

definition card_dividers :: string where
  "card_dividers = [CHR 0xF0, CHR 0x9F, CHR 0x97, CHR 0x82, CHR 0xEF, CHR 0xB8, CHR 0x8F]"

definition cross_x :: string where
  "cross_x = [CHR 0xE2, CHR 0x9D, CHR 0x8C]"

definition warning_sign :: string where
  "warning_sign = [CHR 0xE2, CHR 0x9A, CHR 0xA0, CHR 0xEF, CHR 0xB8, CHR 0x8F]"

definition bar_chart :: string where
  "bar_chart = [CHR 0xF0, CHR 0x9F, CHR 0x93, CHR 0x8A]"

definition waving_hand :: string where
  "waving_hand = [CHR 0xF0, CHR 0x9F, CHR 0x91, CHR 0x8B]"

text \<open>
  \<open>str.strip()\<close> removes the white space of \<open>str.isspace\<close> from both ends.  A string being
  the UTF-8 bytes of the Python \<open>str\<close>, \<open>space_codes\<close> lists the encodings of these
  characters: \<open>\t \n \v \f \r\<close>, the separators U+001C to U+001F, the blank, U+0085,
  U+00A0, U+1680, U+2000 to U+200A, U+2028, U+2029, U+202F, U+205F and U+3000.  In UTF-8 a
  lead byte starts a character, so such an encoding at either end of the bytes is such a
  character at that end of the \<open>str\<close>.
\<close>

definition space_codes :: "string list" where
  "space_codes =
     [[CHR 0x09], [CHR 0x0A], [CHR 0x0B], [CHR 0x0C], [CHR 0x0D],
      [CHR 0x1C], [CHR 0x1D], [CHR 0x1E], [CHR 0x1F], [CHR 0x20],
      [CHR 0xC2, CHR 0x85], [CHR 0xC2, CHR 0xA0],
      [CHR 0xE1, CHR 0x9A, CHR 0x80],
      [CHR 0xE2, CHR 0x80, CHR 0x80], [CHR 0xE2, CHR 0x80, CHR 0x81],
      [CHR 0xE2, CHR 0x80, CHR 0x82], [CHR 0xE2, CHR 0x80, CHR 0x83],
      [CHR 0xE2, CHR 0x80, CHR 0x84], [CHR 0xE2, CHR 0x80, CHR 0x85],
      [CHR 0xE2, CHR 0x80, CHR 0x86], [CHR 0xE2, CHR 0x80, CHR 0x87],
      [CHR 0xE2, CHR 0x80, CHR 0x88], [CHR 0xE2, CHR 0x80, CHR 0x89],
      [CHR 0xE2, CHR 0x80, CHR 0x8A],
      [CHR 0xE2, CHR 0x80, CHR 0xA8], [CHR 0xE2, CHR 0x80, CHR 0xA9],
      [CHR 0xE2, CHR 0x80, CHR 0xAF], [CHR 0xE2, CHR 0x81, CHR 0x9F],
      [CHR 0xE3, CHR 0x80, CHR 0x80]]"

definition starts_with :: "string \<Rightarrow> string \<Rightarrow> bool" where
  "starts_with s w = (w \<noteq> [] \<and> take (length w) s = w)"

text \<open>Removes from the front of \<open>s\<close> every leading occurrence of one of the \<open>codes\<close>.\<close>

function strip_front :: "string list \<Rightarrow> string \<Rightarrow> string" where
  "strip_front codes s =
     (case find (starts_with s) codes of
        None \<Rightarrow> s
      | Some w \<Rightarrow> strip_front codes (drop (length w) s))"
  by pat_completeness auto
termination
proof (relation "measure (\<lambda>(codes, s). length s)")
  show "wf (measure (\<lambda>(codes, s). length s))" by simp
next
  fix codes :: "string list" and s w :: string
  assume "find (starts_with s) codes = Some w"
  then have "starts_with s w" by (auto simp: find_Some_iff)
  then have "w \<noteq> []" and "take (length w) s = w" by (simp_all add: starts_with_def)
  then have "s \<noteq> []" by auto
  with \<open>w \<noteq> []\<close> show "((codes, drop (length w) s), (codes, s)) \<in> measure (\<lambda>(codes, s). length s)"
    by simp
qed

declare strip_front.simps [simp del]

definition py_strip :: "string \<Rightarrow> string" where
  "py_strip s = rev (strip_front (map rev space_codes) (rev (strip_front space_codes s)))"

text \<open>
  \<open>str.lower()\<close>, of which the session uses only the comparisons \<open>!= 'n'\<close> and \<open>== 'y'\<close>:
  the letters \<open>A\<close> to \<open>Z\<close> are lowered and every other byte is kept, no character outside
  ASCII having \<open>n\<close> or \<open>y\<close> as its lower case.
\<close>

definition lower_char :: "char \<Rightarrow> char" where
  "lower_char c =
     (if 65 \<le> (of_char c :: nat) \<and> (of_char c :: nat) \<le> 90 then char_of (of_char c + 32 :: nat)
      else c)"

definition py_lower :: "string \<Rightarrow> string" where
  "py_lower s = map lower_char s"

text \<open>\<open>f"'{s}'"\<close>\<close>

definition quoted :: "string \<Rightarrow> string" where
  "quoted s = CHR 0x27 # s @ [CHR 0x27]"

text \<open>\<open>s or default\<close> for a string \<open>s\<close>.\<close>

definition or_default :: "string \<Rightarrow> string \<Rightarrow> string" where
  "or_default s dflt = (if s \<noteq> [] then s else dflt)"

text \<open>\<open>type(e).__name__\<close>\<close>

fun class_name :: "exc_class \<Rightarrow> string" where
  "class_name JSONDecodeError = ''JSONDecodeError''"
| "class_name AttributeError = ''AttributeError''"
| "class_name TypeError = ''TypeError''"
| "class_name ValueError = ''ValueError''"
| "class_name RecursionError = ''RecursionError''"
| "class_name EOFError = ''EOFError''"
| "class_name McpError = ''McpError''"
| "class_name OSError = ''OSError''"
| "class_name ExceptionGroup = ''ExceptionGroup''"

text \<open>
  The builtins and library functions the session uses and the repository does not define:
  \<open>json.loads\<close>, \<open>json.dumps(_, indent=2)\<close>, \<open>int\<close> on a string, and \<open>str(e.__dict__)\<close>.
\<close>

record builtins =
  b_loads :: loads_fn
  b_dumps :: dumps_fn
  b_int :: "string \<Rightarrow> pyexc + int"
  b_dict_repr :: "pyexc \<Rightarrow> string"

text \<open>
  The terminal: each \<open>input()\<close> takes the next event, a line typed (without its newline)
  or Ctrl-C, which raises \<open>KeyboardInterrupt\<close>; with no event left, \<open>input()\<close> raises
  \<open>EOFError\<close>.  \<open>Prompted\<close> is the prompt \<open>input\<close> writes.
\<close>

datatype stdin_event = Line string | Interrupt

text \<open>
  How a piece of the loop body ends: \<open>Next\<close> goes on to the next round (the end of the
  body, or \<open>continue\<close>), \<open>Stop\<close> is \<open>break\<close>, \<open>Raised e\<close> an exception, \<open>Interrupted\<close> a
  \<open>KeyboardInterrupt\<close>.  A \<open>step\<close> is the events, the terminal input left, and the outcome.
\<close>

datatype outcome = Next | Stop | Raised pyexc | Interrupted

type_synonym step = "event list \<times> stdin_event list \<times> outcome"

definition out :: "string \<Rightarrow> step \<Rightarrow> step" where
  "out s st = (case st of (es, stdin, oc) \<Rightarrow> (Print s # es, stdin, oc))"

definition finish :: "stdin_event list \<Rightarrow> step" where
  "finish stdin = ([], stdin, Next)"

text \<open>\<open>x = input(prompt)\<close>, then the rest of the body \<open>k\<close> with the line read.\<close>

definition py_input ::
  "string \<Rightarrow> stdin_event list \<Rightarrow> (string \<Rightarrow> stdin_event list \<Rightarrow> step) \<Rightarrow> step" where
  "py_input prompt stdin k =
     (case stdin of
        [] \<Rightarrow> ([Prompted prompt], [], Raised (PyExc EOFError ''EOF when reading a line''))
      | Interrupt # rest \<Rightarrow> ([Prompted prompt], rest, Interrupted)
      | Line s # rest \<Rightarrow> (case k s rest of (es, stdin', oc) \<Rightarrow> (Prompted prompt # es, stdin', oc)))"

text \<open>\<open>n = int(s)\<close>, then \<open>k\<close> with the number.\<close>

definition with_int ::
  "builtins \<Rightarrow> string \<Rightarrow> stdin_event list \<Rightarrow> (int \<Rightarrow> step) \<Rightarrow> step" where
  "with_int b s stdin k = (case b_int b s of Inl e \<Rightarrow> ([], stdin, Raised e) | Inr n \<Rightarrow> k n)"

type_synonym reply_fn = "request \<Rightarrow> pyexc + mcp_result"

text \<open>
  \<open>result = await session.call_tool(...)\<close> (or \<open>read_resource\<close>), then
  \<open>print("... Results:")\<close> and \<open>print(format_mcp_result(result))\<close>.
\<close>

definition call_and_show :: "builtins \<Rightarrow> reply_fn \<Rightarrow> request \<Rightarrow> stdin_event list \<Rightarrow> step" where
  "call_and_show b reply req stdin =
     (case reply req of
        Inl e \<Rightarrow> ([Call req], stdin, Raised e)
      | Inr result \<Rightarrow>
          (case format_mcp_result (b_loads b) (b_dumps b) result of
             Inl e \<Rightarrow> ([Call req, Print (bar_chart @ '' Results:'')], stdin, Raised e)
           | Inr s \<Rightarrow> ([Call req, Print (bar_chart @ '' Results:''), Print s], stdin, Next)))"

definition search_contacts :: "builtins \<Rightarrow> reply_fn \<Rightarrow> stdin_event list \<Rightarrow> step" where
  "search_contacts b reply stdin =
     out (magnifier @ '' SEARCH CONTACTS'')
    (out (replicate 30 (CHR ''-''))
    (py_input ''Enter search query (name/phone): '' stdin (\<lambda>l stdin.
       let query = py_strip l in
       if query = [] then out (warning_sign @ ''  Query cannot be empty!'') (finish stdin)
       else
         out (''Searching for contacts matching '' @ quoted query @ ''...'')
           (call_and_show b reply (CallTool ''search_contacts'' [(''query'', AStr query)]) stdin))))"

definition list_chats :: "builtins \<Rightarrow> reply_fn \<Rightarrow> stdin_event list \<Rightarrow> step" where
  "list_chats b reply stdin =
     out (speech_balloon @ '' LIST CHATS'')
    (out (replicate 30 (CHR ''-''))
    (py_input ''Enter limit (default 10): '' stdin (\<lambda>l1 stdin.
     py_input ''Enter page number (default 0): '' stdin (\<lambda>l2 stdin.
     py_input ''Sort by (last_active/name, default last_active): '' stdin (\<lambda>l3 stdin.
     py_input ''Filter by name/JID (optional): '' stdin (\<lambda>l4 stdin.
       let limit = or_default (py_strip l1) ''10'';
           page = or_default (py_strip l2) ''0'';
           sort_by = or_default (py_strip l3) ''last_active'';
           query_filter = py_strip l4
       in
       with_int b limit stdin (\<lambda>limit_n.
       with_int b page stdin (\<lambda>page_n.
         let params = [(''limit'', AInt limit_n), (''page'', AInt page_n),
                       (''sort_by'', AStr sort_by), (''include_last_message'', ABool True)]
                      @ (if query_filter \<noteq> [] then [(''query'', AStr query_filter)] else [])
         in
         out ''Fetching chats...''
           (call_and_show b reply (CallTool ''list_chats'' params) stdin)))))))))"

definition get_chat :: "builtins \<Rightarrow> reply_fn \<Rightarrow> stdin_event list \<Rightarrow> step" where
  "get_chat b reply stdin =
     out (page_sign @ '' GET CHAT DETAILS'')
    (out (replicate 30 (CHR ''-''))
    (py_input (''Enter chat JID (e.g., '' @ [CHR 0x27] @ ''123456@s.whatsapp.net'' @ [CHR 0x27] @ ''): '') stdin (\<lambda>l stdin.
       let chat_jid = py_strip l in
       if chat_jid = [] then out (warning_sign @ ''  Chat JID cannot be empty!'') (finish stdin)
       else
         py_input ''Include last message? (y/n, default y): '' stdin (\<lambda>l2 stdin.
           let include_last = py_lower (py_strip l2);
               include_last_message = (include_last \<noteq> ''n'')
           in
           out (''Fetching details for chat '' @ quoted chat_jid @ ''...'')
             (call_and_show b reply
                (CallTool ''get_chat''
                   [(''chat_jid'', AStr chat_jid),
                    (''include_last_message'', ABool include_last_message)])
                stdin)))))"

definition list_messages :: "builtins \<Rightarrow> reply_fn \<Rightarrow> stdin_event list \<Rightarrow> step" where
  "list_messages b reply stdin =
     out (clipboard @ '' LIST MESSAGES FROM CHAT'')
    (out (replicate 30 (CHR ''-''))
    (py_input ''Enter chat JID: '' stdin (\<lambda>l stdin.
       let chat_jid = py_strip l in
       if chat_jid = [] then out (warning_sign @ ''  Chat JID cannot be empty!'') (finish stdin)
       else
         py_input ''Enter limit (default 20): '' stdin (\<lambda>l1 stdin.
         py_input ''Enter page number (default 0): '' stdin (\<lambda>l2 stdin.
           let limit = or_default (py_strip l1) ''20'';
               page = or_default (py_strip l2) ''0''
           in
           out (''Fetching messages from '' @ quoted chat_jid @ ''...'')
          (with_int b limit stdin (\<lambda>limit_n.
           with_int b page stdin (\<lambda>page_n.
             call_and_show b reply
               (CallTool ''list_messages''
                  [(''chat_jid'', AStr chat_jid), (''limit'', AInt limit_n),
                   (''page'', AInt page_n)])
               stdin))))))))"

definition search_messages :: "builtins \<Rightarrow> reply_fn \<Rightarrow> stdin_event list \<Rightarrow> step" where
  "search_messages b reply stdin =
     out (magnifier_right @ '' SEARCH MESSAGES'')
    (out (replicate 30 (CHR ''-''))
    (py_input ''Enter search query: '' stdin (\<lambda>l stdin.
       let query = py_strip l in
       if query = [] then out (warning_sign @ ''  Search query cannot be empty!'') (finish stdin)
       else
         py_input ''Enter chat JID (optional, press Enter for all chats): '' stdin (\<lambda>l1 stdin.
         py_input ''Enter limit (default 10): '' stdin (\<lambda>l2 stdin.
         py_input ''Enter page number (default 0): '' stdin (\<lambda>l3 stdin.
           let chat_jid = py_strip l1;
               limit = or_default (py_strip l2) ''10'';
               page = or_default (py_strip l3) ''0''
           in
           with_int b limit stdin (\<lambda>limit_n.
           with_int b page stdin (\<lambda>page_n.
             let params = [(''query'', AStr query), (''limit'', AInt limit_n),
                           (''page'', AInt page_n)]
                          @ (if chat_jid \<noteq> [] then [(''chat_jid'', AStr chat_jid)] else []);
                 search_scope = (if chat_jid \<noteq> [] then ''in chat '' @ quoted chat_jid
                                 else ''in all chats'')
             in
             out (''Searching for '' @ quoted query @ '' '' @ search_scope @ ''...'')
               (call_and_show b reply (CallTool ''search_messages'' params) stdin)))))))))"

text \<open>Choice 6, lines 220-244.\<close>

definition send_message :: "builtins \<Rightarrow> reply_fn \<Rightarrow> stdin_event list \<Rightarrow> step" where
  "send_message b reply stdin =
     out (outbox @ '' SEND MESSAGE'')
    (out (replicate 30 (CHR ''-''))
    (py_input ''Enter recipient JID: '' stdin (\<lambda>l stdin.
       let recipient = py_strip l in
       if recipient = [] then out (warning_sign @ ''  Recipient JID cannot be empty!'') (finish stdin)
       else
         py_input ''Enter message text: '' stdin (\<lambda>l1 stdin.
           let message = py_strip l1 in
           if message = [] then out (warning_sign @ ''  Message text cannot be empty!'') (finish stdin)
           else
             py_input (''Send '' @ quoted message @ '' to '' @ quoted recipient @ ''? (y/n): '')
               stdin (\<lambda>l2 stdin.
               let confirm = py_lower (py_strip l2) in
               if confirm = ''y'' then
                 out ''Sending message...''
                   (call_and_show b reply
                      (CallTool ''send_message''
                         [(''recipient'', AStr recipient), (''message'', AStr message)])
                      stdin)
               else out (cross_x @ '' Message sending cancelled.'') (finish stdin))))))"

definition get_message_context :: "builtins \<Rightarrow> reply_fn \<Rightarrow> stdin_event list \<Rightarrow> step" where
  "get_message_context b reply stdin =
     out (thread_sign @ '' GET MESSAGE CONTEXT'')
    (out (replicate 30 (CHR ''-''))
    (py_input ''Enter message ID: '' stdin (\<lambda>l stdin.
       let message_id = py_strip l in
       if message_id = [] then out (warning_sign @ ''  Message ID cannot be empty!'') (finish stdin)
       else
         py_input ''Messages before (default 5): '' stdin (\<lambda>l1 stdin.
         py_input ''Messages after (default 5): '' stdin (\<lambda>l2 stdin.
           let before = or_default (py_strip l1) ''5'';
               after = or_default (py_strip l2) ''5''
           in
           out (''Fetching context for message '' @ quoted message_id @ ''...'')
          (with_int b before stdin (\<lambda>before_n.
           with_int b after stdin (\<lambda>after_n.
             call_and_show b reply
               (CallTool ''get_message_context''
                  [(''message_id'', AStr message_id), (''before'', AInt before_n),
                   (''after'', AInt after_n)])
               stdin))))))))"

definition get_schema :: "builtins \<Rightarrow> reply_fn \<Rightarrow> stdin_event list \<Rightarrow> step" where
  "get_schema b reply stdin =
     out (card_dividers @ ''  GET DATABASE SCHEMA'')
    (out (replicate 30 (CHR ''-''))
    (out ''Fetching database schema...''
      (call_and_show b reply (ReadResource ''schema://whatsapp/main'') stdin)))"

text \<open>The menu the loop prints at the start of every round (lines 97-109).\<close>

definition menu :: "string list" where
  "menu =
     [nl @ rule50,
      mobile_phone @ '' WhatsApp MCP Operations Menu:'',
      rule50,
      ''1. '' @ magnifier @ '' Search contacts'',
      ''2. '' @ speech_balloon @ '' List chats'',
      ''3. '' @ page_sign @ '' Get chat details'',
      ''4. '' @ clipboard @ '' List messages from chat'',
      ''5. '' @ magnifier_right @ '' Search messages'',
      ''6. '' @ outbox @ '' Send message'',
      ''7. '' @ thread_sign @ '' Get message context'',
      ''8. '' @ card_dividers @ ''  Get database schema'',
      ''9. '' @ cross_x @ '' Exit'',
      rule50]"

text \<open>The body of the inner \<open>try\<close> (lines 112-281).\<close>

definition menu_body :: "builtins \<Rightarrow> reply_fn \<Rightarrow> stdin_event list \<Rightarrow> step" where
  "menu_body b reply stdin =
     py_input (nl @ ''Enter your choice (1-9): '') stdin (\<lambda>l stdin.
       let choice = py_strip l in
       out []
        (if choice = ''1'' then search_contacts b reply stdin
         else if choice = ''2'' then list_chats b reply stdin
         else if choice = ''3'' then get_chat b reply stdin
         else if choice = ''4'' then list_messages b reply stdin
         else if choice = ''5'' then search_messages b reply stdin
         else if choice = ''6'' then send_message b reply stdin
         else if choice = ''7'' then get_message_context b reply stdin
         else if choice = ''8'' then get_schema b reply stdin
         else if choice = ''9'' then out (waving_hand @ '' Goodbye!'') ([], stdin, Stop)
         else out (cross_x @ '' Invalid choice. Please enter a number between 1-9.'') (finish stdin)))"

text \<open>The three handlers of the inner \<open>try\<close> (lines 283-298).\<close>

definition handlers :: "builtins \<Rightarrow> step \<Rightarrow> step" where
  "handlers b st =
     (case st of (es, stdin, oc) \<Rightarrow>
        (case oc of
           Raised e \<Rightarrow>
             if is_ValueError e then
               (es @ [Print (cross_x @ '' Invalid input: '' @ exc_msg e)], stdin, Next)
             else
               (es @ [Print (cross_x @ '' Error: '' @ exc_msg e),
                      Print (''Error type: '' @ class_name (class_of e)),
                      Print (''Error details: '' @ exc_msg e),
                      Print (''Error attributes: '' @ b_dict_repr b e),
                      Print ''Traceback:'',
                      Traceback e,
                      Print ''Please try again or contact support if the issue persists.''],
                stdin, Next)
         | Interrupted \<Rightarrow> (es @ [Print (nl @ waving_hand @ '' Goodbye!'')], stdin, Stop)
         | _ \<Rightarrow> st))"

text \<open>One round of \<open>while True\<close>: the menu, the body, the handlers.\<close>

definition menu_round :: "builtins \<Rightarrow> reply_fn \<Rightarrow> stdin_event list \<Rightarrow> step" where
  "menu_round b reply stdin =
     (case handlers b (menu_body b reply stdin) of
        (es, stdin', oc) \<Rightarrow> (map Print menu @ es, stdin', oc))"

text \<open>
  The loop, for at most \<open>n\<close> rounds: \<open>None\<close> when it has not left the loop by then (at the
  end of the terminal input every round raises \<open>EOFError\<close>, is reported and starts again).
\<close>

fun menu_loop :: "nat \<Rightarrow> builtins \<Rightarrow> reply_fn \<Rightarrow> stdin_event list \<Rightarrow> event list option" where
  "menu_loop 0 b reply stdin = None"
| "menu_loop (Suc n) b reply stdin =
     (case menu_round b reply stdin of
        (es, stdin', oc) \<Rightarrow>
          (if oc = Stop then Some es
           else (case menu_loop n b reply stdin' of None \<Rightarrow> None | Some es' \<Rightarrow> Some (es @ es'))))"

text \<open>
  \<open>interactive_session\<close> itself: the banner, \<open>connect\<close> (the same body as in the inspector),
  and the loop.  No exception leaves the loop, so the handler of \<open>connect\<close> and the outer
  handler see only a failure to start the server or to initialize.
\<close>

definition interactive_session ::
  "nat \<Rightarrow> builtins \<Rightarrow> server \<Rightarrow> reply_fn \<Rightarrow> stdin_event list \<Rightarrow> event list option" where
  "interactive_session n b srv reply stdin =
     (let banner = [Print (link_sign @ '' WhatsApp MCP Interactive Session''), Print rule50]
      in case spawn_error srv of
           Some e \<Rightarrow>
             Some (banner @ [Print (cross_mark @ '' Failed to establish session: '' @ exc_msg e)])
         | None \<Rightarrow>
             (case initialize_reply srv of
                Inl e \<Rightarrow>
                  Some (banner @
                    [Call Initialize,
                     Print (cross_mark @ '' Failed to initialize session: '' @ exc_msg e),
                     Print (cross_mark @ '' Failed to establish session: '' @
                              exc_msg (exit_raises srv e))])
              | Inr init_result \<Rightarrow>
                  (case menu_loop n b reply stdin of
                     None \<Rightarrow> None
                   | Some es \<Rightarrow>
                       Some (banner @
                         [Call Initialize,
                          Print (check_mark @ '' Connected to server: '' @ serverInfo_name init_result),
                          Print (''  Version: '' @ serverInfo_version init_result),
                          Print (''  Protocol Version: '' @ protocolVersion init_result @ nl)]
                         @ es))))"

section \<open>The specification's content decoding\<close>

text \<open>
  The decoding policy in the words of the specification (section 4.6): a text item whose
  string parses as JSON is \<open>Structured\<close>, any other text item is \<open>Text\<close>, an item of another
  shape is \<open>Opaque\<close>.  It is stated here to be compared with \<open>format_mcp_result\<close>, which
  builds no blocks and prints each item at once; \<open>render_block\<close> is what the function
  prints for a block, \<open>d\<close> being the text \<open>json.dumps\<close> gives.
\<close>

datatype ContentBlock = Text string | Structured json | Opaque string

fun spec_decode_item :: "loads_fn \<Rightarrow> content_item \<Rightarrow> ContentBlock" where
  "spec_decode_item loads (ContentItem (Some (PyStr s)) r) =
     (case loads s of Inr v \<Rightarrow> Structured v | Inl e \<Rightarrow> Text s)"
| "spec_decode_item loads (ContentItem a r) = Opaque r"

definition spec_decode_content :: "loads_fn \<Rightarrow> content_item list \<Rightarrow> ContentBlock list" where
  "spec_decode_content loads items = map (spec_decode_item loads) items"

fun render_block :: "(json \<Rightarrow> string) \<Rightarrow> ContentBlock \<Rightarrow> string" where
  "render_block d (Text s) = s"
| "render_block d (Structured v) = d v"
| "render_block d (Opaque r) = r"

text \<open>An item as the protocol's types give it: no \<open>text\<close> attribute, or one that is a \<open>str\<close>.\<close>

fun text_is_str :: "content_item \<Rightarrow> bool" where
  "text_is_str (ContentItem None r) = True"
| "text_is_str (ContentItem (Some (PyStr s)) r) = True"
| "text_is_str (ContentItem (Some v) r) = False"

text \<open>
  An item the decoding policy speaks of, for a given parser and printer: it has no \<open>text\<close>,
  or its \<open>text\<close> is a string that \<open>json.loads\<close> parses, to a value that \<open>json.dumps\<close> prints
  as \<open>d\<close> of it, or a string on which \<open>json.loads\<close> raises \<open>JSONDecodeError\<close>.  Any other
  exception of the parser or the printer is outside it.
\<close>

fun decodes :: "loads_fn \<Rightarrow> dumps_fn \<Rightarrow> (json \<Rightarrow> string) \<Rightarrow> content_item \<Rightarrow> bool" where
  "decodes loads dumps d (ContentItem None r) = True"
| "decodes loads dumps d (ContentItem (Some (PyStr s)) r) =
     (case loads s of
        Inr v \<Rightarrow> dumps v = Inr (d v)
      | Inl e \<Rightarrow> class_of e = JSONDecodeError)"
| "decodes loads dumps d (ContentItem (Some v) r) = False"

section \<open>The specification's pre-call validation\<close>

text \<open>
  The check of section 4.6 in the words of the specification: the top-level \<open>required\<close>
  fields of a tool's \<open>inputSchema\<close> that are absent from the arguments of a call.  The
  repository has no such check; this is what the specification compares a call with.
\<close>

fun required_names :: "json list \<Rightarrow> string list" where
  "required_names [] = []"
| "required_names (JString s # rest) = s # required_names rest"
| "required_names (v # rest) = required_names rest"

definition spec_required_fields :: "json \<Rightarrow> string list" where
  "spec_required_fields schema =
     (case schema of
        JObject d \<Rightarrow> (case map_of d ''required'' of Some (JArray xs) \<Rightarrow> required_names xs | _ \<Rightarrow> [])
      | _ \<Rightarrow> [])"

definition spec_missing_required :: "json \<Rightarrow> (string \<times> argval) list \<Rightarrow> string list" where
  "spec_missing_required schema arguments =
     filter (\<lambda>f. map_of arguments f = None) (spec_required_fields schema)"

section \<open>Depth of a schema\<close>

text \<open>
  The number of nested calls \<open>_print_schema\<close> makes on a schema: one for the value itself
  and, for a \<open>dict\<close> whose \<open>properties\<close> is a \<open>dict\<close>, as many more as its deepest property
  needs.  \<open>nested n\<close> is the object schema with \<open>n\<close> levels of one property \<open>p\<close> below it.
\<close>

fun schema_depth :: "json \<Rightarrow> nat"
  and find_properties :: "(string \<times> json) list \<Rightarrow> nat"
  and properties_depth :: "(string \<times> json) list \<Rightarrow> nat" where
  "schema_depth (JObject d) = Suc (find_properties d)"
| "schema_depth v = 1"
| "find_properties [] = 0"
| "find_properties ((k, v) # rest) =
     (if k = ''properties'' then (case v of JObject ps \<Rightarrow> properties_depth ps | _ \<Rightarrow> 0)
      else find_properties rest)"
| "properties_depth [] = 0"
| "properties_depth ((k, v) # rest) = max (schema_depth v) (properties_depth rest)"

fun nested :: "nat \<Rightarrow> json" where
  "nested 0 = JObject [(''type'', JString ''object'')]"
| "nested (Suc n) =
     JObject [(''type'', JString ''object''), (''properties'', JObject [(''p'', nested n)])]"

text \<open>
  A run that ended in the interpreter's \<open>RecursionError\<close>, and the lines \<open>_print_schema\<close>
  prints for \<open>nested n\<close> when nothing stops it.
\<close>

definition stack_overflow :: "run \<Rightarrow> bool" where
  "stack_overflow r = (case snd r of Some e \<Rightarrow> class_of e = RecursionError | None \<Rightarrow> False)"

fun nested_lines :: "nat \<Rightarrow> nat \<Rightarrow> event list" where
  "nested_lines 0 indent = [Print (indent_str indent @ ''Type: object'')]"
| "nested_lines (Suc n) indent =
     [Print (indent_str indent @ ''Type: object''),
      Print (indent_str indent @ ''Properties:''),
      Print (indent_str indent @ ''  p:'')] @ nested_lines n (indent + 4)"

section \<open>The Correlator of the specification (section 4.3)\<close>

text \<open>
  Modelled from the spec: the error taxonomy of section 7.  The repository defines none of
  these errors; the scripts hand every request to \<open>ClientSession\<close> of the \<open>mcp\<close> package,
  whose code is not part of the repository.
\<close>

datatype client_error =
    SpawnError | WriteError | EndOfStream | TransportClosed string
  | MalformedMessage | IncompleteFrame | DuplicateId | UnsolicitedResponse
  | RequestTimeout | ServerError int string | ArgumentValidationError
  | ToolNotFound | SessionNotReady

text \<open>
  Modelled from the spec: a PendingRequest (section 3), which the repository does not have.
  Its id is the key it is stored under, and its completion slot is the entry of
  \<open>completed\<close> for that id; \<open>createdAt\<close> is left out, as no operation reads it.
\<close>

record pending_request =
  pr_method :: string
  pr_deadline :: nat

text \<open>Modelled from the spec: what a caller's completion slot receives (absent from the repository).\<close>

datatype completion = Resolved json | Rejected client_error

text \<open>
  Modelled from the spec: the Correlator's state (absent from the repository).  \<open>pending\<close> is
  the map from request id to PendingRequest; \<open>completed\<close> holds what has been delivered to
  the caller of each id; \<open>closed\<close> is the reason of \<open>failAll\<close> once it has begun; \<open>unsolicited\<close>
  is the log of ids whose responses were dropped as UnsolicitedResponse.
\<close>

record correlator =
  pending :: "nat \<rightharpoonup> pending_request"
  completed :: "nat \<rightharpoonup> completion"
  closed :: "string option"
  unsolicited :: "nat list"

text \<open>Modelled from the spec: a Correlator with no request registered yet (absent from the repository).\<close>

definition new_correlator :: correlator where
  "new_correlator = \<lparr>pending = Map.empty, completed = Map.empty, closed = None, unsolicited = []\<rparr>"

text \<open>
  Modelled from the spec: \<open>register(id, method, deadline)\<close> (absent from the repository).  It
  fails with \<open>DuplicateId\<close> if the id is already pending, and, once \<open>failAll\<close> has begun,
  at once with the error of \<open>failAll\<close>; otherwise the request becomes pending.
\<close>

definition register :: "correlator \<Rightarrow> nat \<Rightarrow> string \<Rightarrow> nat \<Rightarrow> client_error + correlator" where
  "register c rid method deadline =
     (case closed c of
        Some reason \<Rightarrow> Inl (TransportClosed reason)
      | None \<Rightarrow>
          (case pending c rid of
             Some p \<Rightarrow> Inl DuplicateId
           | None \<Rightarrow>
               Inr (c\<lparr>pending := (pending c)(rid \<mapsto> \<lparr>pr_method = method, pr_deadline = deadline\<rparr>)\<rparr>)))"

text \<open>
  Modelled from the spec: \<open>resolve(id, result)\<close> and \<open>reject(id, error)\<close> (absent from the
  repository): look up and remove the PendingRequest and complete its caller; if no such id
  is pending, the message is logged as an UnsolicitedResponse and dropped.
\<close>

definition deliver :: "correlator \<Rightarrow> nat \<Rightarrow> completion \<Rightarrow> correlator" where
  "deliver c rid outcome =
     (case pending c rid of
        None \<Rightarrow> c\<lparr>unsolicited := unsolicited c @ [rid]\<rparr>
      | Some p \<Rightarrow> c\<lparr>pending := (pending c)(rid := None),
                     completed := (completed c)(rid \<mapsto> outcome)\<rparr>)"

text \<open>Modelled from the spec: \<open>resolve(id, result)\<close>, the delivery of a result (absent from the repository).\<close>

definition resolve :: "correlator \<Rightarrow> nat \<Rightarrow> json \<Rightarrow> correlator" where
  "resolve c rid result = deliver c rid (Resolved result)"

text \<open>Modelled from the spec: \<open>reject(id, error)\<close>, the delivery of an error (absent from the repository).\<close>

definition reject :: "correlator \<Rightarrow> nat \<Rightarrow> client_error \<Rightarrow> correlator" where
  "reject c rid err = deliver c rid (Rejected err)"

text \<open>
  Modelled from the spec: \<open>failAll(reason)\<close> (absent from the repository): every currently
  pending request is completed with \<open>TransportClosed\<close> carrying the reason, and later
  registrations fail.  It is one step, which is the atomicity the specification asks for.
\<close>

definition failAll :: "correlator \<Rightarrow> string \<Rightarrow> correlator" where
  "failAll c reason =
     c\<lparr>completed := (\<lambda>rid. case pending c rid of
                              Some p \<Rightarrow> Some (Rejected (TransportClosed reason))
                            | None \<Rightarrow> completed c rid),
       pending := Map.empty,
       closed := Some reason\<rparr>"

text \<open>
  Modelled from the spec: a deadline that has passed (absent from the repository): it lies
  before \<open>now\<close>.
\<close>

definition deadline_passed :: "nat \<Rightarrow> pending_request \<Rightarrow> bool" where
  "deadline_passed now p = (pr_deadline p < now)"

text \<open>
  Modelled from the spec: \<open>expire(now)\<close> (absent from the repository): any PendingRequest
  whose deadline has passed is rejected with \<open>RequestTimeout\<close>.
\<close>

definition expire :: "correlator \<Rightarrow> nat \<Rightarrow> correlator" where
  "expire c now =
     c\<lparr>completed := (\<lambda>rid. case pending c rid of
                              Some p \<Rightarrow> if deadline_passed now p then Some (Rejected RequestTimeout)
                                        else completed c rid
                            | None \<Rightarrow> completed c rid),
       pending := (\<lambda>rid. case pending c rid of
                            Some p \<Rightarrow> if deadline_passed now p then None else Some p
                          | None \<Rightarrow> None)\<rparr>"

text \<open>Modelled from the spec: the operations of the Correlator (absent from the repository), as events.\<close>

datatype correlator_op =
    Register nat string nat | Resolve nat json | Reject nat client_error
  | FailAll string | Expire nat

text \<open>
  Modelled from the spec: one operation applied to the Correlator.  A registration that
  fails leaves the Correlator as it is.
\<close>

fun apply_op :: "correlator \<Rightarrow> correlator_op \<Rightarrow> correlator" where
  "apply_op c (Register rid method deadline) =
     (case register c rid method deadline of Inl e \<Rightarrow> c | Inr c' \<Rightarrow> c')"
| "apply_op c (Resolve rid result) = resolve c rid result"
| "apply_op c (Reject rid err) = reject c rid err"
| "apply_op c (FailAll reason) = failAll c reason"
| "apply_op c (Expire now) = expire c now"

text \<open>Modelled from the spec: a sequence of operations applied in order.\<close>

fun run_ops :: "correlator \<Rightarrow> correlator_op list \<Rightarrow> correlator" where
  "run_ops c [] = c"
| "run_ops c (x # xs) = run_ops (apply_op c x) xs"

text \<open>Modelled from the spec: the operation is a \<open>register\<close> of this id.\<close>

fun registers :: "nat \<Rightarrow> correlator_op \<Rightarrow> bool" where
  "registers rid (Register rid' method deadline) = (rid' = rid)"
| "registers rid x = False"

text \<open>
  Modelled from the spec: the Correlator once \<open>failAll\<close> has begun and nothing is pending.
\<close>

definition shut :: "correlator \<Rightarrow> bool" where
  "shut c = (closed c \<noteq> None \<and> pending c = Map.empty)"

text \<open>
  Modelled from the spec: a request that is no longer pending, its caller's slot holding \<open>v\<close>.
\<close>

definition retired :: "correlator \<Rightarrow> nat \<Rightarrow> completion option \<Rightarrow> bool" where
  "retired c rid v = (pending c rid = None \<and> completed c rid = v)"

section \<open>The Session of the specification (section 4.4)\<close>

text \<open>
  Modelled from the spec: the states of the Session state machine.  The repository has no
  session of its own: it uses \<open>ClientSession\<close> of the \<open>mcp\<close> package.  \<open>rank\<close> is the order
  \<open>Uninitialized, Handshaking, Ready, Closing, Closed\<close> of the specification, with the
  terminal \<open>Faulted\<close> last.
\<close>

datatype session_state = Uninitialized | Handshaking | Ready | Closing | Closed | Faulted

text \<open>Modelled from the spec: the position of a state in that order.\<close>

fun rank :: "session_state \<Rightarrow> nat" where
  "rank Uninitialized = 0"
| "rank Handshaking = 1"
| "rank Ready = 2"
| "rank Closing = 3"
| "rank Closed = 4"
| "rank Faulted = 5"

text \<open>Modelled from the spec: ServerInfo (section 3), captured at the end of the handshake.\<close>

record server_info =
  si_name :: string
  si_version :: string
  si_protocolVersion :: string

text \<open>
  Modelled from the spec: the Session (absent from the repository): its state, the
  ServerInfo once captured, the requests written to the Transport in order (method and
  params), and whether the Transport is open.
\<close>

record session =
  state :: session_state
  info :: "server_info option"
  sent :: "(string \<times> json) list"
  transport_open :: bool

text \<open>Modelled from the spec: the Session before \<open>connect()\<close>.\<close>

definition new_session :: session where
  "new_session = \<lparr>state = Uninitialized, info = None, sent = [], transport_open = False\<rparr>"

text \<open>
  Modelled from the spec: what happens to a Session.  \<open>Connect\<close> is \<open>connect()\<close>;
  \<open>Handshake r\<close> is the initialize request sent and its outcome \<open>r\<close> awaited (a ServerInfo,
  or an error or timeout); \<open>Request m p\<close> is \<open>request(method, params)\<close>; \<open>Close\<close> is
  \<open>close()\<close>; \<open>Drain\<close> is the pending requests drained or cancelled; \<open>Terminate\<close> is the
  Transport reporting termination.
\<close>

datatype session_event =
    Connect | Handshake "client_error + server_info" | Request string json
  | Close | Drain | Terminate

text \<open>
  Modelled from the spec: the transitions of section 4.4, with the error the caller
  receives, if any.  A request in a state other than \<open>Ready\<close> fails with \<open>SessionNotReady\<close>
  and nothing is written; an event with no transition from the current state leaves the
  Session as it is.
\<close>

fun session_step :: "session \<Rightarrow> session_event \<Rightarrow> client_error option \<times> session" where
  "session_step s Terminate = (None, s\<lparr>state := Faulted, transport_open := False\<rparr>)"
| "session_step s Connect =
     (if state s = Uninitialized
      then (None, s\<lparr>state := Handshaking, transport_open := True\<rparr>)
      else (None, s))"
| "session_step s (Handshake r) =
     (if state s = Handshaking
      then (case r of
              Inr si \<Rightarrow>
                (None, s\<lparr>state := Ready, info := Some si,
                          sent := sent s @ [(''initialize'', JNull)]\<rparr>)
            | Inl e \<Rightarrow>
                (Some e, s\<lparr>state := Faulted, transport_open := False,
                            sent := sent s @ [(''initialize'', JNull)]\<rparr>))
      else (None, s))"
| "session_step s (Request m p) =
     (if state s = Ready then (None, s\<lparr>sent := sent s @ [(m, p)]\<rparr>)
      else (Some SessionNotReady, s))"
| "session_step s Close =
     (if state s = Ready then (None, s\<lparr>state := Closing\<rparr>) else (None, s))"
| "session_step s Drain =
     (if state s = Closing then (None, s\<lparr>state := Closed, transport_open := False\<rparr>)
      else (None, s))"

text \<open>Modelled from the spec: an execution of the Session, event by event.\<close>

fun session_run :: "session \<Rightarrow> session_event list \<Rightarrow> session" where
  "session_run s [] = s"
| "session_run s (ev # evs) = session_run (snd (session_step s ev)) evs"

text \<open>Modelled from the spec: the states an execution passes through, in order.\<close>

fun states_along :: "session \<Rightarrow> session_event list \<Rightarrow> session_state list" where
  "states_along s [] = [state s]"
| "states_along s (ev # evs) = state s # states_along (snd (session_step s ev)) evs"

section \<open>Sample values\<close>

text \<open>
  The text of the specification's \<open>search_contacts\<close> scenario, the value it parses to, and
  what \<open>json.dumps(_, indent=2)\<close> prints for that value.  \<open>sample_loads\<close> and
  \<open>sample_dumps\<close> stand in for \<open>json.loads\<close> and \<open>json.dumps\<close> at the concrete inputs of
  the examples below, where they agree with them: the scenario's text, and texts that are
  not JSON.
\<close>

definition scenario_text :: string where
  "scenario_text = ''{'' @ [CHR 0x22] @ ''results'' @ [CHR 0x22] @ '':[]}''"

definition scenario_value :: json where
  "scenario_value = JObject [(''results'', JArray [])]"

definition scenario_dump :: string where
  "scenario_dump = ''{'' @ nl @ ''  '' @ [CHR 0x22] @ ''results'' @ [CHR 0x22] @ '': []'' @ nl @ ''}''"

definition sample_loads :: loads_fn where
  "sample_loads s =
     (if s = scenario_text then Inr scenario_value
      else Inl (PyExc JSONDecodeError ''Expecting value: line 1 column 1 (char 0)''))"

definition sample_dumps :: dumps_fn where
  "sample_dumps v = Inr scenario_dump"

text \<open>
  Two texts of the protocol's type \<open>str\<close> on which \<open>json.loads\<close> of CPython 3.11 raises
  something other than \<open>JSONDecodeError\<close>: 4301 digits, an integer beyond the 4300 digits
  that \<open>int\<close> converts (\<open>ValueError\<close>), and 1000 opening brackets, nested deeper than the
  interpreter's recursion limit allows (\<open>RecursionError\<close>).  \<open>limited_loads\<close> stands in for
  \<open>json.loads\<close> at these two texts and is \<open>sample_loads\<close> elsewhere.
\<close>

definition long_digits :: string where
  "long_digits = replicate 4301 (CHR ''1'')"

definition deep_brackets :: string where
  "deep_brackets = replicate 1000 (CHR ''['')"

definition digits_message :: string where
  "digits_message =
     ''Exceeds the limit (4300 digits) for integer string conversion: value has 4301 digits; ''
     @ ''use sys.set_int_max_str_digits() to increase the limit''"

definition brackets_message :: string where
  "brackets_message =
     ''maximum recursion depth exceeded while decoding a JSON array from a unicode string''"

definition limited_loads :: loads_fn where
  "limited_loads s =
     (if s = long_digits
      then Inl (PyExc ValueError digits_message)
      else if s = deep_brackets
      then Inl (PyExc RecursionError brackets_message)
      else sample_loads s)"

text \<open>
  A server whose \<open>tools/list\<close> fails, that has no resources and one prompt.
\<close>

definition sample_server :: server where
  "sample_server =
     Server None (Inr (InitResult ''echo'' ''1.0'' ''2024-11-05''))
       (Inl (PyExc McpError ''Connection closed''))
       (Inr (ResourcesResult (Some [])))
       (Inr (PromptsResult (Some
          [Prompt ''greet'' (Some ''Say hello'') (Some [PromptArgument ''name'' None (Some True)])])))
       (\<lambda>e. PyExc ExceptionGroup ''unhandled errors in a TaskGroup (1 sub-exception)'')"

text \<open>
  Stand-ins for the other builtins at concrete inputs: \<open>sample_int\<close> is \<open>int\<close> on a string
  of ASCII decimal digits (on other strings it raises \<open>ValueError\<close>, as \<open>int\<close> does when the
  string has no sign, blank or underscore either), and an exception has no attributes.
  \<open>sample_reply\<close> answers every request with the scenario's result.
  \<open>list_chats_schema\<close> is an input schema for \<open>list_chats\<close> that requires \<open>query\<close>, and
  \<open>list_chats_params\<close> the arguments the menu sends when every prompt is left empty.
\<close>

definition is_digit :: "char \<Rightarrow> bool" where
  "is_digit c = (48 \<le> (of_char c :: nat) \<and> (of_char c :: nat) \<le> 57)"

fun digits_value :: "string \<Rightarrow> nat \<Rightarrow> nat option" where
  "digits_value [] acc = Some acc"
| "digits_value (c # cs) acc =
     (if is_digit c then digits_value cs (10 * acc + (of_char c - 48)) else None)"

definition sample_int :: "string \<Rightarrow> pyexc + int" where
  "sample_int s =
     (case (if s = [] then None else digits_value s 0) of
        Some n \<Rightarrow> Inr (int n)
      | None \<Rightarrow> Inl (PyExc ValueError (''invalid literal for int() with base 10: '' @ quoted s)))"

definition sample_builtins :: builtins where
  "sample_builtins =
     \<lparr>b_loads = sample_loads, b_dumps = sample_dumps, b_int = sample_int,
      b_dict_repr = (\<lambda>e. ''{}'')\<rparr>"

definition sample_reply :: reply_fn where
  "sample_reply req =
     Inr (McpResult (Some (Items [ContentItem (Some (PyStr scenario_text)) ''TextContent''])) ''CallToolResult'')"

definition list_chats_schema :: json where
  "list_chats_schema =
     JObject [(''type'', JString ''object''),
              (''properties'', JObject [(''query'', JObject [(''type'', JString ''string'')])]),
              (''required'', JArray [JString ''query''])]"

definition list_chats_params :: "(string \<times> argval) list" where
  "list_chats_params =
     [(''limit'', AInt 10), (''page'', AInt 0), (''sort_by'', AStr ''last_active''),
      (''include_last_message'', ABool True)]"

text \<open>
  A Correlator with two requests pending, and the ServerInfo of the specification's
  handshake scenario.
\<close>

definition sample_correlator :: correlator where
  "sample_correlator =
     run_ops new_correlator [Register 1 ''tools/call'' 100, Register 2 ''tools/list'' 50]"

definition echo_info :: server_info where
  "echo_info = \<lparr>si_name = ''echo'', si_version = ''1.0'', si_protocolVersion = ''2024-11-05''\<rparr>"

section \<open>Properties of \<open>format_mcp_result\<close>\<close>

lemma parse_and_dump_str:
  "parse_and_dump loads dumps (PyStr s) = (case loads s of Inl e \<Rightarrow> Inl e | Inr v \<Rightarrow> dumps v)"
  by (simp add: parse_and_dump_def json_loads_def)

lemma format_items_decode:
  assumes "list_all (decodes loads dumps d) xs"
  shows "format_items loads dumps xs acc =
           Inr (acc @ map (render_block d) (spec_decode_content loads xs))"
  using assms
proof (induction xs arbitrary: acc)
  case Nil
  then show ?case by (simp add: spec_decode_content_def)
next
  case (Cons x xs)
  obtain a r where x: "x = ContentItem a r" by (cases x)
  from Cons.prems have dx: "decodes loads dumps d x"
    and dxs: "list_all (decodes loads dumps d) xs" by simp_all
  note IH = Cons.IH [OF dxs]
  show ?case
  proof (cases a)
    case None
    then show ?thesis using x IH by (simp add: spec_decode_content_def)
  next
    case (Some t)
    with dx x obtain s where t: "t = PyStr s" by (cases t) auto
    show ?thesis
    proof (cases "loads s")
      case (Inl e)
      with dx x Some t have "caught e" by (simp add: caught_def)
      with Inl show ?thesis using x Some t IH
        by (simp add: spec_decode_content_def parse_and_dump_str)
    next
      case (Inr v)
      with dx x Some t have "dumps v = Inr (d v)" by simp
      with Inr show ?thesis using x Some t IH
        by (simp add: spec_decode_content_def parse_and_dump_str)
    qed
  qed
qed

lemma long_digits_not_brackets: "deep_brackets \<noteq> long_digits"
  by (simp add: deep_brackets_def long_digits_def)

lemma not_replicate: "x \<noteq> c \<Longrightarrow> x # xs \<noteq> replicate n c"
  by (cases n) auto

text \<open>
  Claim C1 as stated fails.  Decoding can fail hard: on a text of 4301 digits \<open>json.loads\<close>
  raises \<open>ValueError\<close>, and on a text of 1000 opening brackets \<open>RecursionError\<close>; the handler
  of line 30 catches neither, so \<open>format_mcp_result\<close> raises on an item of the protocol's
  types.  And not every result is decoded: one without a \<open>content\<close> attribute comes back as
  \<open>str(result)\<close>, unparsed even when that is the text of the scenario.
\<close>

theorem decoding_fails_hard:
  "text_is_str (ContentItem (Some (PyStr long_digits)) ''TextContent'')
   \<and> map_sum class_of id
        (format_mcp_result limited_loads sample_dumps
          (McpResult (Some (Items [ContentItem (Some (PyStr long_digits)) ''TextContent'']))
             ''CallToolResult'')) = Inl ValueError
   \<and> map_sum class_of id
        (format_mcp_result limited_loads sample_dumps
          (McpResult (Some (Items [ContentItem (Some (PyStr deep_brackets)) ''TextContent'']))
             ''CallToolResult'')) = Inl RecursionError
   \<and> format_mcp_result limited_loads sample_dumps (McpResult None scenario_text) =
        Inr scenario_text"
  by (simp add: format_mcp_result_def parse_and_dump_str limited_loads_def caught_def
      long_digits_not_brackets)

text \<open>
  Claim C1, amended.  For a result whose \<open>content\<close> is a list of items, each without \<open>text\<close>
  or with a \<open>text\<close> string that \<open>json.loads\<close> rejects with \<open>JSONDecodeError\<close> or parses to
  a value that \<open>json.dumps\<close> prints (as \<open>d\<close> of the value),
  \<open>format_mcp_result\<close> returns, joined by newlines and in order, the blocks of the
  specification's policy as it prints them: the dump of the parsed value for a text that
  parses (\<open>Structured\<close>), the text itself for one that does not (\<open>Text\<close>), \<open>str\<close> of the item
  for an item without text (\<open>Opaque\<close>).  A result without a \<open>content\<close> attribute is not
  decoded: it comes back as \<open>str(result)\<close>.  The scenario's only item, the text
  \<open>{"results":[]}\<close>, is the single block \<open>Structured {results: []}\<close>, printed as its dump.
  Nothing is said of a text on which the parser raises another exception.
\<close>

theorem format_mcp_result_decoding:
  assumes items: "list_all (decodes loads dumps d) items"
  shows "format_mcp_result loads dumps (McpResult (Some (Items items)) r) =
           Inr (py_join nl (map (render_block d) (spec_decode_content loads items)))
       \<and> (\<forall>s v q. loads s = Inr v \<and> dumps v = Inr (d v) \<longrightarrow>
            spec_decode_content loads [ContentItem (Some (PyStr s)) q] = [Structured v]
          \<and> format_mcp_result loads dumps (McpResult (Some (Items [ContentItem (Some (PyStr s)) q])) r)
              = Inr (d v))
       \<and> (\<forall>s e q. loads s = Inl e \<and> class_of e = JSONDecodeError \<longrightarrow>
            spec_decode_content loads [ContentItem (Some (PyStr s)) q] = [Text s]
          \<and> format_mcp_result loads dumps (McpResult (Some (Items [ContentItem (Some (PyStr s)) q])) r)
              = Inr s)
       \<and> (\<forall>q. spec_decode_content loads [ContentItem None q] = [Opaque q]
          \<and> format_mcp_result loads dumps (McpResult (Some (Items [ContentItem None q])) r) = Inr q)
       \<and> format_mcp_result loads dumps (McpResult None r) = Inr r
       \<and> (loads scenario_text = Inr scenario_value \<and> dumps scenario_value = Inr (d scenario_value) \<longrightarrow>
            spec_decode_content loads [ContentItem (Some (PyStr scenario_text)) q'] =
              [Structured scenario_value]
          \<and> format_mcp_result loads dumps
              (McpResult (Some (Items [ContentItem (Some (PyStr scenario_text)) q'])) r) =
              Inr (d scenario_value))"
proof -
  have general: "format_mcp_result loads dumps (McpResult (Some (Items xs)) r) =
      Inr (py_join nl (map (render_block d) (spec_decode_content loads xs)))"
    if "list_all (decodes loads dumps d) xs" for xs
    using format_items_decode [OF that, of "[]"] by (simp add: format_mcp_result_def)
  have structured: "spec_decode_content loads [ContentItem (Some (PyStr s)) q] = [Structured v]
      \<and> format_mcp_result loads dumps (McpResult (Some (Items [ContentItem (Some (PyStr s)) q])) r)
          = Inr (d v)"
    if "loads s = Inr v \<and> dumps v = Inr (d v)" for s v q
    using that general [of "[ContentItem (Some (PyStr s)) q]"]
    by (simp add: spec_decode_content_def)
  have plain: "spec_decode_content loads [ContentItem (Some (PyStr s)) q] = [Text s]
      \<and> format_mcp_result loads dumps (McpResult (Some (Items [ContentItem (Some (PyStr s)) q])) r)
          = Inr s"
    if "loads s = Inl e \<and> class_of e = JSONDecodeError" for s e q
    using that general [of "[ContentItem (Some (PyStr s)) q]"]
    by (simp add: spec_decode_content_def)
  have opaque: "spec_decode_content loads [ContentItem None q] = [Opaque q]
      \<and> format_mcp_result loads dumps (McpResult (Some (Items [ContentItem None q])) r) = Inr q"
    for q
    using general [of "[ContentItem None q]"] by (simp add: spec_decode_content_def)
  have absent: "format_mcp_result loads dumps (McpResult None r) = Inr r"
    by (simp add: format_mcp_result_def)
  from general [OF items] structured plain opaque absent show ?thesis by blast
qed

theorem format_mcp_result_decoding_witness:
  "format_mcp_result limited_loads sample_dumps
     (McpResult (Some (Items [ContentItem (Some (PyStr scenario_text)) ''a'',
                              ContentItem (Some (PyStr ''hello'')) ''b'',
                              ContentItem None ''image''])) ''r'') =
     Inr (scenario_dump @ nl @ ''hello'' @ nl @ ''image'')
   \<and> spec_decode_content limited_loads
       [ContentItem (Some (PyStr scenario_text)) ''a'',
        ContentItem (Some (PyStr ''hello'')) ''b'',
        ContentItem None ''image''] =
       [Structured scenario_value, Text ''hello'', Opaque ''image'']
   \<and> format_mcp_result limited_loads sample_dumps
       (McpResult (Some (Items [ContentItem (Some (PyStr scenario_text)) ''a''])) ''r'') =
       Inr scenario_dump"
proof -
  have scen: "limited_loads scenario_text = Inr scenario_value"
    and hello: "limited_loads ''hello'' =
      Inl (PyExc JSONDecodeError ''Expecting value: line 1 column 1 (char 0)'')"
    by (simp_all add: limited_loads_def sample_loads_def scenario_text_def long_digits_def
        deep_brackets_def not_replicate)
  have dump: "sample_dumps scenario_value = Inr scenario_dump"
    by (simp add: sample_dumps_def)
  have items: "list_all (decodes limited_loads sample_dumps (\<lambda>v. scenario_dump))
      [ContentItem (Some (PyStr scenario_text)) ''a'',
       ContentItem (Some (PyStr ''hello'')) ''b'',
       ContentItem None ''image'']"
    by (simp add: scen hello dump)
  note T = format_mcp_result_decoding [OF items, of "''r''" "''a''"]
  from T have "format_mcp_result limited_loads sample_dumps
     (McpResult (Some (Items [ContentItem (Some (PyStr scenario_text)) ''a'',
                              ContentItem (Some (PyStr ''hello'')) ''b'',
                              ContentItem None ''image''])) ''r'') =
     Inr (scenario_dump @ nl @ ''hello'' @ nl @ ''image'')"
    by (simp add: spec_decode_content_def scen hello)
  moreover have "spec_decode_content limited_loads
       [ContentItem (Some (PyStr scenario_text)) ''a'',
        ContentItem (Some (PyStr ''hello'')) ''b'',
        ContentItem None ''image''] =
       [Structured scenario_value, Text ''hello'', Opaque ''image'']"
    by (simp add: spec_decode_content_def scen hello)
  moreover from T scen dump have "format_mcp_result limited_loads sample_dumps
       (McpResult (Some (Items [ContentItem (Some (PyStr scenario_text)) ''a''])) ''r'') =
       Inr scenario_dump"
    by blast
  ultimately show ?thesis by blast
qed

section \<open>Properties of the specification's Correlator\<close>

lemma shut_failAll: "shut (failAll c reason)"
  by (simp add: shut_def failAll_def)

lemma shut_apply_op:
  assumes "shut c"
  shows "shut (apply_op c x) \<and> completed (apply_op c x) = completed c"
proof (cases x)
  case (Register rid meth deadline)
  with assms show ?thesis by (auto simp: shut_def register_def)
next
  case (Resolve rid result)
  with assms show ?thesis by (simp add: shut_def resolve_def deliver_def)
next
  case (Reject rid err)
  with assms show ?thesis by (simp add: shut_def reject_def deliver_def)
next
  case (FailAll reason)
  with assms show ?thesis by (simp add: shut_def failAll_def)
next
  case (Expire now)
  with assms show ?thesis by (simp add: shut_def expire_def)
qed

lemma shut_run_ops:
  "shut c \<Longrightarrow> shut (run_ops c xs) \<and> completed (run_ops c xs) = completed c"
proof (induction xs arbitrary: c)
  case Nil
  then show ?case by simp
next
  case (Cons x xs)
  from shut_apply_op [OF Cons.prems, of x]
  have s: "shut (apply_op c x)" and k: "completed (apply_op c x) = completed c" by simp_all
  from Cons.IH [OF s] k show ?case by simp
qed

lemma closed_apply_op:
  assumes "closed c = Some reason" and "\<forall>r. x \<noteq> FailAll r"
  shows "closed (apply_op c x) = Some reason"
  using assms
  by (cases x) (simp_all add: register_def resolve_def reject_def deliver_def expire_def
      split: option.split)

lemma closed_run_ops:
  "closed c = Some reason \<Longrightarrow> \<forall>r. FailAll r \<notin> set xs \<Longrightarrow> closed (run_ops c xs) = Some reason"
proof (induction xs arbitrary: c)
  case Nil
  then show ?case by simp
next
  case (Cons x xs)
  from Cons.prems have "\<forall>r. x \<noteq> FailAll r" by auto
  from closed_apply_op [OF Cons.prems(1) this] Cons.prems(2) Cons.IH
  show ?case by simp
qed

text \<open>
  Claim C3 (on the Correlator modelled from the specification).  After \<open>failAll(reason)\<close>,
  whatever operations follow, every request that was pending when \<open>failAll\<close> was invoked
  has been rejected with \<open>TransportClosed\<close> carrying the reason and stays so, nothing is
  pending, and every \<open>register\<close> fails at once with a \<open>TransportClosed\<close> error (carrying the
  same reason unless \<open>failAll\<close> is invoked again) and creates no pending entry.
\<close>

theorem failAll_rejects_pending_and_later_registers:
  "(\<forall>rid p. pending c rid = Some p \<longrightarrow>
       completed (run_ops (failAll c reason) ops) rid = Some (Rejected (TransportClosed reason)))
   \<and> pending (run_ops (failAll c reason) ops) = Map.empty
   \<and> (\<exists>r. register (run_ops (failAll c reason) ops) rid' method deadline = Inl (TransportClosed r))
   \<and> ((\<forall>r. FailAll r \<notin> set ops) \<longrightarrow>
        register (run_ops (failAll c reason) ops) rid' method deadline =
          Inl (TransportClosed reason))"
proof -
  let ?c = "run_ops (failAll c reason) ops"
  from shut_run_ops [OF shut_failAll, of c reason ops]
  have s: "shut ?c" and k: "completed ?c = completed (failAll c reason)" by simp_all
  have 1: "completed ?c rid = Some (Rejected (TransportClosed reason))"
    if "pending c rid = Some p" for rid p
    unfolding k using that by (simp add: failAll_def)
  from s have 2: "pending ?c = Map.empty" by (simp add: shut_def)
  from s obtain r where r: "closed ?c = Some r" by (auto simp: shut_def)
  then have 3: "register ?c rid' method deadline = Inl (TransportClosed r)"
    by (simp add: register_def)
  have 4: "register ?c rid' method deadline = Inl (TransportClosed reason)"
    if "\<forall>r. FailAll r \<notin> set ops"
  proof -
    have "closed (failAll c reason) = Some reason" by (simp add: failAll_def)
    from closed_run_ops [OF this that] show ?thesis by (simp add: register_def)
  qed
  from 1 2 3 4 show ?thesis by blast
qed

lemma sample_correlator_pending:
  "pending sample_correlator 1 = Some \<lparr>pr_method = ''tools/call'', pr_deadline = 100\<rparr>"
  "pending sample_correlator 2 = Some \<lparr>pr_method = ''tools/list'', pr_deadline = 50\<rparr>"
  by (simp_all add: sample_correlator_def new_correlator_def register_def)

theorem failAll_rejects_pending_and_later_registers_witness:
  "completed (run_ops (failAll sample_correlator ''server exited'')
       [Resolve 1 JNull, Register 3 ''tools/call'' 200]) 1 =
     Some (Rejected (TransportClosed ''server exited''))
   \<and> register (run_ops (failAll sample_correlator ''server exited'')
       [Resolve 1 JNull, Register 3 ''tools/call'' 200]) 4 ''tools/list'' 300 =
     Inl (TransportClosed ''server exited'')"
  using failAll_rejects_pending_and_later_registers [of sample_correlator "''server exited''"
      "[Resolve 1 JNull, Register 3 ''tools/call'' 200]" 4 "''tools/list''" 300]
    sample_correlator_pending(1)
  by auto

lemma retired_apply_op:
  assumes "retired c rid v" and "\<not> registers rid x"
  shows "retired (apply_op c x) rid v"
proof (cases x)
  case (Register rid' meth deadline)
  with assms show ?thesis
    by (auto simp: retired_def register_def split: option.split)
next
  case (Resolve rid' result)
  with assms show ?thesis
    by (auto simp: retired_def resolve_def deliver_def split: option.split)
next
  case (Reject rid' err)
  with assms show ?thesis
    by (auto simp: retired_def reject_def deliver_def split: option.split)
next
  case (FailAll reason)
  with assms show ?thesis by (simp add: retired_def failAll_def)
next
  case (Expire now)
  with assms show ?thesis by (simp add: retired_def expire_def)
qed

lemma retired_run_ops:
  "retired c rid v \<Longrightarrow> \<forall>x\<in>set xs. \<not> registers rid x \<Longrightarrow> retired (run_ops c xs) rid v"
proof (induction xs arbitrary: c)
  case Nil
  then show ?case by simp
next
  case (Cons x xs)
  from Cons.prems have "\<not> registers rid x" and rest: "\<forall>x\<in>set xs. \<not> registers rid x" by simp_all
  from retired_apply_op [OF Cons.prems(1) this(1)] have "retired (apply_op c x) rid v" .
  from Cons.IH [OF this rest] show ?case by simp
qed

lemma deliver_retired:
  assumes "retired c rid v"
  shows "deliver c rid outcome = c\<lparr>unsolicited := unsolicited c @ [rid]\<rparr>"
  using assms by (simp add: retired_def deliver_def)

text \<open>
  Claim C4 (on the Correlator modelled from the specification).  \<open>expire(now)\<close> rejects a
  pending request whose deadline has passed with \<open>RequestTimeout\<close> and removes it; a
  response that arrives later with its id, after any operations that do not register the id
  again, is logged as unsolicited and dropped, so the caller still holds the timeout;
  \<open>expire\<close> leaves every pending request whose deadline has not passed as it was, and
  changes no other slot.
\<close>

theorem expire_times_out_and_late_response_is_dropped:
  assumes pend: "pending c rid = Some p"
    and late: "deadline_passed now p"
  shows "completed (expire c now) rid = Some (Rejected RequestTimeout)
       \<and> pending (expire c now) rid = None
       \<and> (\<forall>ops result err. (\<forall>x\<in>set ops. \<not> registers rid x) \<longrightarrow>
            resolve (run_ops (expire c now) ops) rid result =
              (run_ops (expire c now) ops)
                \<lparr>unsolicited := unsolicited (run_ops (expire c now) ops) @ [rid]\<rparr>
          \<and> reject (run_ops (expire c now) ops) rid err =
              (run_ops (expire c now) ops)
                \<lparr>unsolicited := unsolicited (run_ops (expire c now) ops) @ [rid]\<rparr>
          \<and> completed (resolve (run_ops (expire c now) ops) rid result) rid =
              Some (Rejected RequestTimeout))
       \<and> (\<forall>rid' p'. pending c rid' = Some p' \<and> \<not> deadline_passed now p' \<longrightarrow>
            pending (expire c now) rid' = Some p'
          \<and> completed (expire c now) rid' = completed c rid')
       \<and> (\<forall>rid'. completed (expire c now) rid' \<noteq> completed c rid' \<longrightarrow>
            (\<exists>q. pending c rid' = Some q \<and> deadline_passed now q))"
proof -
  have 1: "completed (expire c now) rid = Some (Rejected RequestTimeout)"
    and 2: "pending (expire c now) rid = None"
    using pend late by (simp_all add: expire_def)
  then have ret: "retired (expire c now) rid (Some (Rejected RequestTimeout))"
    by (simp add: retired_def)
  have 3: "resolve (run_ops (expire c now) ops) rid result =
              (run_ops (expire c now) ops)
                \<lparr>unsolicited := unsolicited (run_ops (expire c now) ops) @ [rid]\<rparr>
          \<and> reject (run_ops (expire c now) ops) rid err =
              (run_ops (expire c now) ops)
                \<lparr>unsolicited := unsolicited (run_ops (expire c now) ops) @ [rid]\<rparr>
          \<and> completed (resolve (run_ops (expire c now) ops) rid result) rid =
              Some (Rejected RequestTimeout)"
    if "\<forall>x\<in>set ops. \<not> registers rid x" for ops result err
  proof -
    from retired_run_ops [OF ret that]
    have r: "retired (run_ops (expire c now) ops) rid (Some (Rejected RequestTimeout))" .
    then have "completed (run_ops (expire c now) ops) rid = Some (Rejected RequestTimeout)"
      by (simp add: retired_def)
    with deliver_retired [OF r] show ?thesis
      by (simp add: resolve_def reject_def)
  qed
  have 4: "pending (expire c now) rid' = Some p' \<and> completed (expire c now) rid' = completed c rid'"
    if "pending c rid' = Some p' \<and> \<not> deadline_passed now p'" for rid' p'
    using that by (simp add: expire_def)
  have 5: "\<exists>q. pending c rid' = Some q \<and> deadline_passed now q"
    if "completed (expire c now) rid' \<noteq> completed c rid'" for rid'
    using that by (cases "pending c rid'") (auto simp: expire_def split: if_splits)
  from 1 2 3 4 5 show ?thesis by blast
qed

theorem expire_times_out_and_late_response_is_dropped_witness:
  "completed (expire sample_correlator 60) 2 = Some (Rejected RequestTimeout)
   \<and> pending (expire sample_correlator 60) 2 = None
   \<and> completed (resolve (run_ops (expire sample_correlator 60) [Resolve 1 JNull]) 2 (JInt 7)) 2 =
       Some (Rejected RequestTimeout)
   \<and> pending (expire sample_correlator 60) 1 =
       Some \<lparr>pr_method = ''tools/call'', pr_deadline = 100\<rparr>"
proof -
  have late: "deadline_passed 60 \<lparr>pr_method = ''tools/list'', pr_deadline = 50\<rparr>"
    and fresh: "\<not> deadline_passed 60 \<lparr>pr_method = ''tools/call'', pr_deadline = 100\<rparr>"
    by (simp_all add: deadline_passed_def)
  have quiet_ops: "\<forall>x\<in>set [Resolve 1 JNull]. \<not> registers 2 x"
    by simp
  note T = expire_times_out_and_late_response_is_dropped [OF sample_correlator_pending(2) late]
  from T have "completed (expire sample_correlator 60) 2 = Some (Rejected RequestTimeout)"
    and "pending (expire sample_correlator 60) 2 = None"
    by blast+
  moreover from T quiet_ops
  have "completed (resolve (run_ops (expire sample_correlator 60) [Resolve 1 JNull]) 2 (JInt 7)) 2 =
      Some (Rejected RequestTimeout)"
    by blast
  moreover from T sample_correlator_pending(1) fresh
  have "pending (expire sample_correlator 60) 1 =
      Some \<lparr>pr_method = ''tools/call'', pr_deadline = 100\<rparr>"
    by blast
  ultimately show ?thesis by blast
qed

section \<open>Properties of the capability listings\<close>

lemma requests_append: "requests (es @ fs) = requests es @ requests fs"
  by (induction es rule: requests.induct) simp_all

lemma requests_seq:
  "requests (fst (seq a b)) =
     requests (fst a) @ (if snd a = None then requests (fst b) else [])"
  by (cases "snd a") (simp_all add: seq_def requests_append)

lemma snd_seq: "snd (seq a b) = (if snd a = None then snd b else snd a)"
  by (cases "snd a") (simp_all add: seq_def)

lemma returns_basic:
  "snd skip = None" "snd (say s) = None" "snd (call q) = None"
  by (simp_all add: skip_def say_def call_def)

lemma requests_call: "requests (fst (call q)) = [q]"
  by (simp add: call_def)

lemma quiet_skip: "quiet skip"
  by (simp add: quiet_def skip_def)

lemma quiet_say: "quiet (say s)"
  by (simp add: quiet_def say_def)

lemma quiet_raise: "quiet (py_raise e)"
  by (simp add: quiet_def py_raise_def)

lemma quiet_seq: "quiet a \<Longrightarrow> quiet b \<Longrightarrow> quiet (seq a b)"
  by (simp add: quiet_def requests_seq)

lemma quiet_option:
  "quiet a \<Longrightarrow> (\<And>x. opt = Some x \<Longrightarrow> quiet (f x)) \<Longrightarrow>
   quiet (case opt of None \<Rightarrow> a | Some x \<Rightarrow> f x)"
  by (cases opt) simp_all

lemma quiet_sum:
  "(\<And>x. quiet (f x)) \<Longrightarrow> (\<And>y. quiet (g y)) \<Longrightarrow> quiet (case v of Inl x \<Rightarrow> f x | Inr y \<Rightarrow> g y)"
  by (cases v) simp_all

lemma quiet_if: "quiet a \<Longrightarrow> quiet b \<Longrightarrow> quiet (if c then a else b)"
  by simp

lemmas quiet_intros =
  quiet_skip quiet_say quiet_raise quiet_seq quiet_option quiet_sum quiet_if

lemma quiet_say_if_set: "quiet (say_if_set label a)"
  unfolding say_if_set_def by (intro quiet_intros)

lemma quiet_print_schema:
  "quiet (print_schema repr limit schema indent)"
  "quiet (print_properties repr limit ps indent)"
proof (induction repr limit schema indent and repr limit ps indent
    rule: print_schema_print_properties.induct)
  case (1 repr schema indent)
  show ?case by (simp add: quiet_raise)
next
  case (2 repr limit schema indent)
  show ?case
  proof (cases schema)
    case (JObject d)
    have props: "quiet (case props of JObject ps \<Rightarrow> print_properties repr limit ps indent
                        | _ \<Rightarrow> py_raise e)"
      if "map_of d ''properties'' = Some props" for props e
      using "2.IH" [OF JObject that] by (cases props) (simp_all add: quiet_raise)
    show ?thesis
      unfolding JObject print_schema.simps json.case
      by (intro quiet_intros props)
  qed (simp_all add: quiet_say)
next
  case (3 repr limit indent)
  show ?case by (simp add: quiet_skip)
next
  case (4 repr limit prop_name prop_schema rest indent)
  then show ?case by (simp add: quiet_say quiet_seq)
qed

lemma quiet_print_tools: "quiet (print_tools repr limit i tools)"
proof (induction tools arbitrary: i)
  case Nil
  show ?case by (simp add: quiet_skip)
next
  case (Cons t ts)
  show ?case
    unfolding print_tools.simps
    by (intro quiet_intros quiet_say_if_set quiet_print_schema Cons.IH)
qed

lemma quiet_print_resources: "quiet (print_resources i rs)"
proof (induction rs arbitrary: i)
  case Nil
  show ?case by (simp add: quiet_skip)
next
  case (Cons r rs)
  show ?case
    unfolding print_resources.simps
    by (intro quiet_intros quiet_say_if_set Cons.IH)
qed

lemma quiet_print_arguments: "quiet (print_arguments args)"
proof (induction args)
  case Nil
  show ?case by (simp add: quiet_skip)
next
  case (Cons a as)
  show ?case
    unfolding print_arguments.simps
    by (intro quiet_intros Cons.IH)
qed

lemma quiet_print_prompts: "quiet (print_prompts i ps)"
proof (induction ps arbitrary: i)
  case Nil
  show ?case by (simp add: quiet_skip)
next
  case (Cons p ps)
  show ?case
    unfolding print_prompts.simps
    by (intro quiet_intros quiet_say_if_set quiet_print_arguments Cons.IH)
qed

lemma handle_listing_returns: "snd (handle_listing what r) = None"
  by (cases "snd r") (simp_all add: handle_listing_def)

lemma requests_handle_listing: "requests (fst (handle_listing what r)) = requests (fst r)"
  by (cases "snd r") (simp_all add: handle_listing_def requests_append)

lemma requests_call_seq: "quiet r \<Longrightarrow> requests (fst (seq (call q) r)) = [q]"
  by (simp add: requests_seq requests_call returns_basic quiet_def)

lemma list_tools_requests: "requests (fst (list_tools repr limit reply)) = [ListTools]"
  unfolding list_tools_def requests_handle_listing
  by (intro requests_call_seq quiet_intros quiet_print_tools)

lemma list_resources_requests: "requests (fst (list_resources reply)) = [ListResources]"
  unfolding list_resources_def requests_handle_listing
  by (intro requests_call_seq quiet_intros quiet_print_resources)

lemma list_prompts_requests: "requests (fst (list_prompts reply)) = [ListPrompts]"
  unfolding list_prompts_def requests_handle_listing
  by (intro requests_call_seq quiet_intros quiet_print_prompts)

lemma list_tools_returns: "snd (list_tools repr limit reply) = None"
  by (simp add: list_tools_def handle_listing_returns)

lemma list_resources_returns: "snd (list_resources reply) = None"
  by (simp add: list_resources_def handle_listing_returns)

lemma list_prompts_returns: "snd (list_prompts reply) = None"
  by (simp add: list_prompts_def handle_listing_returns)

lemma listing_failure:
  "handle_listing what (seq (call q) (py_raise e)) =
     ([Call q, Print (cross_mark @ '' Error listing '' @ what @ '': '' @ exc_msg e)], None)"
  by (simp add: handle_listing_def seq_def call_def py_raise_def)

lemma list_tools_failure:
  "list_tools repr limit (Inl e) =
     ([Call ListTools, Print (cross_mark @ '' Error listing tools: '' @ exc_msg e)], None)"
  by (simp add: list_tools_def listing_failure)

lemma list_resources_failure:
  "list_resources (Inl e) =
     ([Call ListResources, Print (cross_mark @ '' Error listing resources: '' @ exc_msg e)], None)"
  by (simp add: list_resources_def listing_failure)

lemma list_prompts_failure:
  "list_prompts (Inl e) =
     ([Call ListPrompts, Print (cross_mark @ '' Error listing prompts: '' @ exc_msg e)], None)"
  by (simp add: list_prompts_def listing_failure)

text \<open>
  Claim C8.  When the server's catalog is empty, the sequence \<open>list_tools\<close> reads from the
  reply (line 52) is the empty sequence, and the function prints its heading and
  \<open>No tools available\<close> and returns: nothing is raised and no error is reported.  The same
  holds for \<open>list_resources\<close> and \<open>list_prompts\<close>.
\<close>

theorem list_tools_empty_catalog:
  "tools_of (ToolsResult (Some [])) = []
   \<and> list_tools repr limit (Inr (ToolsResult (Some []))) =
       ([Call ListTools, Print (wrench @ '' AVAILABLE TOOLS:''), Print rule50,
         Print ''  No tools available''], None)
   \<and> resources_of (ResourcesResult (Some [])) = []
   \<and> list_resources (Inr (ResourcesResult (Some []))) =
       ([Call ListResources, Print (file_folder @ '' AVAILABLE RESOURCES:''), Print rule50,
         Print ''  No resources available''], None)
   \<and> prompts_of (PromptsResult (Some [])) = []
   \<and> list_prompts (Inr (PromptsResult (Some []))) =
       ([Call ListPrompts, Print (speech_balloon @ '' AVAILABLE PROMPTS:''), Print rule50,
         Print ''  No prompts available''], None)"
  by (simp add: tools_of_def resources_of_def prompts_of_def list_tools_def list_resources_def
      list_prompts_def handle_listing_def seq_def call_def say_def)

text \<open>
  Claim C10.  Once the session is connected, \<open>inspect_server\<close> sends the three listing
  requests in the order tools, resources, prompts whatever each of them is answered with:
  no listing function raises, and a listing whose request fails prints its own error line
  and ends there, after which the next catalog is listed.
\<close>

theorem inspect_server_isolates_failures:
  assumes spawn: "spawn_error srv = None"
    and init: "initialize_reply srv = Inr init_result"
  shows "requests (fst (inspect_server repr limit srv)) =
           [Initialize, ListTools, ListResources, ListPrompts]
       \<and> snd (inspect_server repr limit srv) = None
       \<and> snd (list_tools repr limit (list_tools_reply srv)) = None
       \<and> snd (list_resources (list_resources_reply srv)) = None
       \<and> snd (list_prompts (list_prompts_reply srv)) = None
       \<and> (\<forall>e. list_tools_reply srv = Inl e \<longrightarrow>
             list_tools repr limit (list_tools_reply srv) =
               ([Call ListTools, Print (cross_mark @ '' Error listing tools: '' @ exc_msg e)], None))
       \<and> (\<forall>e. list_resources_reply srv = Inl e \<longrightarrow>
             list_resources (list_resources_reply srv) =
               ([Call ListResources,
                 Print (cross_mark @ '' Error listing resources: '' @ exc_msg e)], None))
       \<and> (\<forall>e. list_prompts_reply srv = Inl e \<longrightarrow>
             list_prompts (list_prompts_reply srv) =
               ([Call ListPrompts, Print (cross_mark @ '' Error listing prompts: '' @ exc_msg e)], None))"
proof -
  define body where "body =
     seq (list_tools repr limit (list_tools_reply srv))
    (seq (say nl)
    (seq (list_resources (list_resources_reply srv))
    (seq (say nl)
         (list_prompts (list_prompts_reply srv)))))"
  have body_ok: "snd body = None"
    unfolding body_def
    by (simp add: snd_seq list_tools_returns list_resources_returns list_prompts_returns
        returns_basic)
  have say_quiet: "requests (fst (say s)) = []" for s
    using quiet_say [of s] by (simp add: quiet_def)
  have body_req: "requests (fst body) = [ListTools, ListResources, ListPrompts]"
    unfolding body_def
    by (simp add: requests_seq list_tools_requests list_resources_requests list_prompts_requests
        list_tools_returns list_resources_returns say_quiet returns_basic)
  define r where "r =
     seq (call Initialize)
    (seq (say (check_mark @ '' Connected to server: '' @ serverInfo_name init_result))
    (seq (say (''  Version: '' @ serverInfo_version init_result))
    (seq (say (''  Protocol Version: '' @ protocolVersion init_result @ nl))
         body)))"
  have r_ok: "snd r = None"
    unfolding r_def using body_ok by (simp add: snd_seq returns_basic)
  have r_req: "requests (fst r) = [Initialize, ListTools, ListResources, ListPrompts]"
    unfolding r_def using body_req
    by (simp add: requests_seq requests_call say_quiet returns_basic)
  have conn: "connect srv body = r"
    using spawn init r_ok unfolding r_def by (simp add: connect_def Let_def)
  have insp: "inspect_server repr limit srv = r"
    using conn r_ok unfolding inspect_server_def body_def [symmetric] by (simp add: Let_def)
  have "requests (fst (inspect_server repr limit srv)) =
          [Initialize, ListTools, ListResources, ListPrompts]"
    and "snd (inspect_server repr limit srv) = None"
    using r_ok r_req by (simp_all add: insp)
  moreover have "\<forall>e. list_tools_reply srv = Inl e \<longrightarrow>
      list_tools repr limit (list_tools_reply srv) =
        ([Call ListTools, Print (cross_mark @ '' Error listing tools: '' @ exc_msg e)], None)"
    by (simp add: list_tools_failure)
  moreover have "\<forall>e. list_resources_reply srv = Inl e \<longrightarrow>
      list_resources (list_resources_reply srv) =
        ([Call ListResources, Print (cross_mark @ '' Error listing resources: '' @ exc_msg e)], None)"
    by (simp add: list_resources_failure)
  moreover have "\<forall>e. list_prompts_reply srv = Inl e \<longrightarrow>
      list_prompts (list_prompts_reply srv) =
        ([Call ListPrompts, Print (cross_mark @ '' Error listing prompts: '' @ exc_msg e)], None)"
    by (simp add: list_prompts_failure)
  ultimately show ?thesis
    using list_tools_returns [of repr limit "list_tools_reply srv"]
      list_resources_returns [of "list_resources_reply srv"]
      list_prompts_returns [of "list_prompts_reply srv"]
    by blast
qed

theorem inspect_server_isolates_failures_witness:
  "requests (fst (inspect_server (\<lambda>v. []) 1000 sample_server)) =
     [Initialize, ListTools, ListResources, ListPrompts]
   \<and> inspect_server (\<lambda>v. []) 1000 sample_server =
     ([Call Initialize,
       Print (check_mark @ '' Connected to server: echo''),
       Print ''  Version: 1.0'',
       Print (''  Protocol Version: 2024-11-05'' @ nl),
       Call ListTools,
       Print (cross_mark @ '' Error listing tools: Connection closed''),
       Print nl,
       Call ListResources,
       Print (file_folder @ '' AVAILABLE RESOURCES:''),
       Print rule50,
       Print ''  No resources available'',
       Print nl,
       Call ListPrompts,
       Print (speech_balloon @ '' AVAILABLE PROMPTS:''),
       Print rule50,
       Print ''1. greet'',
       Print ''   Description: Say hello'',
       Print ''   Arguments:'',
       Print ''     - name: None'',
       Print ''       (required)'',
       Print []], None)"
  using inspect_server_isolates_failures [of sample_server "InitResult ''echo'' ''1.0'' ''2024-11-05''"
      "\<lambda>v. []" 1000]
  by (simp add: sample_server_def inspect_server_def connect_def Let_def list_tools_def
      list_resources_def list_prompts_def handle_listing_def seq_def call_def say_def skip_def
      py_raise_def resources_of_def prompts_of_def say_if_set_def str_opt_def
      str_nat.simps digit_char_def)

section \<open>Properties of the interactive session\<close>

lemma requests_map_Print: "requests (map Print xs) = []"
  by (induction xs) simp_all

lemma sample_int_values: "sample_int ''10'' = Inr 10" "sample_int ''0'' = Inr 0"
  by (simp_all add: sample_int_def is_digit_def)

lemma strip_values:
  "py_strip [] = []" "py_strip ''2'' = ''2''" "py_strip ''6'' = ''6''" "py_strip ''  '' = []"
  "py_strip '' 6 '' = ''6''" "py_strip [CHR 0x20, CHR 0xC2, CHR 0xA0] = []"
  by code_simp+

lemmas step_defs = py_input_def out_def finish_def with_int_def call_and_show_def

text \<open>
  Claim C6 as stated fails: the client holds no schema and validates no call against one.
  With every prompt of \<open>List chats\<close> left empty, the arguments have no \<open>query\<close>; for a
  tool whose \<open>inputSchema\<close> requires \<open>query\<close> the specification's check finds the field
  missing, yet the request is sent and the round ends normally.
\<close>

theorem call_sent_without_required_field:
  "spec_missing_required list_chats_schema list_chats_params = [''query'']
   \<and> requests (fst (menu_round sample_builtins sample_reply
         [Line ''2'', Line [], Line [], Line [], Line []])) = [CallTool ''list_chats'' list_chats_params]
   \<and> snd (menu_round sample_builtins sample_reply
         [Line ''2'', Line [], Line [], Line [], Line []]) = ([], Next)"
  by (simp add: spec_missing_required_def spec_required_fields_def list_chats_schema_def list_chats_params_def
      menu_round_def menu_body_def handlers_def list_chats_def step_defs
      sample_builtins_def sample_reply_def sample_int_values
      strip_values or_default_def format_mcp_result_def parse_and_dump_def
      json_loads_def sample_loads_def sample_dumps_def requests_append requests_map_Print)

lemma requests_call_and_show:
  "requests (fst (call_and_show b reply req stdin)) = [req]"
  by (simp add: call_and_show_def split: sum.split)

lemma menu_round_send_message:
  assumes "py_strip l = ''6''"
  shows "menu_round b reply (Line l # stdin) =
    (case handlers b (send_message b reply stdin) of
       (es, stdin', oc) \<Rightarrow>
         (map Print menu @ Prompted (nl @ ''Enter your choice (1-9): '') # Print [] # es, stdin', oc))"
  using assms
  by (simp add: menu_round_def menu_body_def py_input_def out_def handlers_def
      split: prod.split outcome.split)

text \<open>
  Claim C6, amended.  The interactive client checks only that the fields it prompts for are
  not empty.  For \<open>Send message\<close> (lines 224-242): when the recipient entered is empty
  after \<open>strip\<close>, or the recipient is given and the message is empty, the round prints a
  warning and goes back to the menu; \<open>call_tool\<close> is not called, so nothing is sent, and no
  exception is raised.  When both are given and the user confirms, the request carries both
  fields.
\<close>

theorem send_message_guards:
  assumes choice: "py_strip l = ''6''"
  shows "(py_strip lr = [] \<longrightarrow>
            menu_round b reply (Line l # Line lr # stdin) =
              (map Print menu @
               [Prompted (nl @ ''Enter your choice (1-9): ''), Print [],
                Print (outbox @ '' SEND MESSAGE''), Print (replicate 30 (CHR ''-'')),
                Prompted ''Enter recipient JID: '',
                Print (warning_sign @ ''  Recipient JID cannot be empty!'')],
               stdin, Next)
          \<and> requests (fst (menu_round b reply (Line l # Line lr # stdin))) = [])
       \<and> (py_strip lr \<noteq> [] \<and> py_strip lm = [] \<longrightarrow>
            menu_round b reply (Line l # Line lr # Line lm # stdin) =
              (map Print menu @
               [Prompted (nl @ ''Enter your choice (1-9): ''), Print [],
                Print (outbox @ '' SEND MESSAGE''), Print (replicate 30 (CHR ''-'')),
                Prompted ''Enter recipient JID: '',
                Prompted ''Enter message text: '',
                Print (warning_sign @ ''  Message text cannot be empty!'')],
               stdin, Next)
          \<and> requests (fst (menu_round b reply (Line l # Line lr # Line lm # stdin))) = [])
       \<and> (py_strip lr \<noteq> [] \<and> py_strip lm \<noteq> [] \<and> py_lower (py_strip lc) = ''y'' \<longrightarrow>
            requests (fst (menu_round b reply (Line l # Line lr # Line lm # Line lc # stdin))) =
              [CallTool ''send_message''
                 [(''recipient'', AStr (py_strip lr)), (''message'', AStr (py_strip lm))]])"
proof -
  have no_recipient: "menu_round b reply (Line l # Line lr # stdin) =
      (map Print menu @
       [Prompted (nl @ ''Enter your choice (1-9): ''), Print [],
        Print (outbox @ '' SEND MESSAGE''), Print (replicate 30 (CHR ''-'')),
        Prompted ''Enter recipient JID: '',
        Print (warning_sign @ ''  Recipient JID cannot be empty!'')],
       stdin, Next)" if "py_strip lr = []"
    unfolding menu_round_send_message [OF choice] using that
    by (simp add: send_message_def step_defs handlers_def)
  have no_message: "menu_round b reply (Line l # Line lr # Line lm # stdin) =
      (map Print menu @
       [Prompted (nl @ ''Enter your choice (1-9): ''), Print [],
        Print (outbox @ '' SEND MESSAGE''), Print (replicate 30 (CHR ''-'')),
        Prompted ''Enter recipient JID: '',
        Prompted ''Enter message text: '',
        Print (warning_sign @ ''  Message text cannot be empty!'')],
       stdin, Next)" if "py_strip lr \<noteq> [] \<and> py_strip lm = []"
    unfolding menu_round_send_message [OF choice] using that
    by (simp add: send_message_def step_defs handlers_def)
  have nothing_sent_1: "requests (fst (menu_round b reply (Line l # Line lr # stdin))) = []"
    if "py_strip lr = []"
    unfolding no_recipient [OF that] by (simp add: requests_append requests_map_Print)
  have nothing_sent_2: "requests (fst (menu_round b reply (Line l # Line lr # Line lm # stdin))) = []"
    if "py_strip lr \<noteq> [] \<and> py_strip lm = []"
    unfolding no_message [OF that] by (simp add: requests_append requests_map_Print)
  have sent: "requests (fst (menu_round b reply (Line l # Line lr # Line lm # Line lc # stdin))) =
      [CallTool ''send_message''
         [(''recipient'', AStr (py_strip lr)), (''message'', AStr (py_strip lm))]]"
    if a: "py_strip lr \<noteq> [] \<and> py_strip lm \<noteq> [] \<and> py_lower (py_strip lc) = ''y''"
  proof -
    obtain es stdin' oc where cs: "call_and_show b reply
        (CallTool ''send_message''
           [(''recipient'', AStr (py_strip lr)), (''message'', AStr (py_strip lm))]) stdin
        = (es, stdin', oc)"
      by (cases "call_and_show b reply
        (CallTool ''send_message''
           [(''recipient'', AStr (py_strip lr)), (''message'', AStr (py_strip lm))]) stdin") auto
    have res: "requests es = [CallTool ''send_message''
           [(''recipient'', AStr (py_strip lr)), (''message'', AStr (py_strip lm))]]"
      using requests_call_and_show [of b reply
          "CallTool ''send_message''
             [(''recipient'', AStr (py_strip lr)), (''message'', AStr (py_strip lm))]" stdin]
      by (simp add: cs)
    show ?thesis
      unfolding menu_round_send_message [OF choice]
      using a res
      by (simp add: send_message_def py_input_def out_def finish_def cs handlers_def Let_def
          requests_append requests_map_Print split: outcome.split)
  qed
  from no_recipient nothing_sent_1 no_message nothing_sent_2 sent show ?thesis by blast
qed

theorem send_message_guards_witness:
  "menu_round sample_builtins sample_reply
     [Line '' 6 '', Line [CHR 0x20, CHR 0xC2, CHR 0xA0], Line ''9''] =
     (map Print menu @
      [Prompted (nl @ ''Enter your choice (1-9): ''), Print [],
       Print (outbox @ '' SEND MESSAGE''), Print (replicate 30 (CHR ''-'')),
       Prompted ''Enter recipient JID: '',
       Print (warning_sign @ ''  Recipient JID cannot be empty!'')],
      [Line ''9''], Next)
   \<and> requests (fst (menu_round sample_builtins sample_reply
        [Line '' 6 '', Line [CHR 0x20, CHR 0xC2, CHR 0xA0], Line ''9''])) = []"
proof -
  have choice: "py_strip '' 6 '' = ''6''"
    and blank: "py_strip [CHR 0x20, CHR 0xC2, CHR 0xA0] = []"
    by (simp_all only: strip_values)
  from send_message_guards
    [OF choice, of "[CHR 0x20, CHR 0xC2, CHR 0xA0]" sample_builtins sample_reply "[Line ''9'']"] blank
  show ?thesis by blast
qed

section \<open>Properties of \<open>_print_schema\<close>\<close>

lemma find_properties_map_of:
  "find_properties d =
     (case map_of d ''properties'' of Some (JObject ps) \<Rightarrow> properties_depth ps | _ \<Rightarrow> 0)"
  by (induction d) (auto split: json.split)

lemma str_items_TypeError: "str_items i xs = Inl e \<Longrightarrow> class_of e = TypeError"
  by (induction i xs rule: str_items.induct) (auto split: sum.splits)

lemma join_required_TypeError: "join_required r = Inl e \<Longrightarrow> class_of e = TypeError"
  by (auto simp: join_required_def split: json.splits sum.splits dest: str_items_TypeError)

lemma overflow_basic:
  "\<not> stack_overflow skip" "\<not> stack_overflow (say s)"
  "stack_overflow (py_raise e) = (class_of e = RecursionError)"
  by (simp_all add: stack_overflow_def skip_def say_def py_raise_def)

lemma overflow_seq: "\<not> stack_overflow a \<Longrightarrow> \<not> stack_overflow b \<Longrightarrow> \<not> stack_overflow (seq a b)"
  by (cases "snd a") (simp_all add: seq_def stack_overflow_def)

lemma overflow_option:
  "\<not> stack_overflow a \<Longrightarrow> (\<And>x. opt = Some x \<Longrightarrow> \<not> stack_overflow (f x)) \<Longrightarrow>
   \<not> stack_overflow (case opt of None \<Rightarrow> a | Some x \<Rightarrow> f x)"
  by (cases opt) simp_all

lemma overflow_required:
  "\<not> stack_overflow (case join_required r of Inl e \<Rightarrow> py_raise e | Inr s \<Rightarrow> say (f s))"
  by (cases "join_required r") (auto simp: overflow_basic dest: join_required_TypeError)

lemma print_schema_within_limit:
  "schema_depth schema \<le> limit \<Longrightarrow> \<not> stack_overflow (print_schema repr limit schema indent)"
  "properties_depth ps \<le> limit \<Longrightarrow> \<not> stack_overflow (print_properties repr limit ps indent)"
proof (induction repr limit schema indent and repr limit ps indent
    rule: print_schema_print_properties.induct)
  case (1 repr schema indent)
  then show ?case by (cases schema) simp_all
next
  case (2 repr limit schema indent)
  show ?case
  proof (cases schema)
    case (JObject d)
    with "2.prems" have fp: "find_properties d \<le> limit" by simp
    have props: "\<not> stack_overflow
        (case props of JObject ps \<Rightarrow> print_properties repr limit ps indent
         | _ \<Rightarrow> py_raise (PyExc AttributeError m))"
      if "map_of d ''properties'' = Some props" for props m
    proof (cases props)
      case (JObject ps)
      with that fp have "properties_depth ps \<le> limit"
        by (simp add: find_properties_map_of)
      from "2.IH" [OF \<open>schema = JObject d\<close> that JObject this] JObject
      show ?thesis by simp
    qed (simp_all add: overflow_basic)
    show ?thesis
      unfolding JObject print_schema.simps json.case
      by (intro overflow_seq overflow_option overflow_basic overflow_required props)
  qed (simp_all add: overflow_basic)
next
  case (3 repr limit indent)
  show ?case by (simp add: overflow_basic)
next
  case (4 repr limit prop_name prop_schema rest indent)
  then show ?case by (simp add: overflow_basic overflow_seq)
qed

lemma raises_seq_left: "snd a \<noteq> None \<Longrightarrow> snd (seq a b) \<noteq> None"
  by (cases "snd a") (simp_all add: seq_def)

lemma raises_seq_right: "snd b \<noteq> None \<Longrightarrow> snd (seq a b) \<noteq> None"
  by (cases "snd a") (simp_all add: seq_def)

lemma print_schema_beyond_limit:
  "limit < schema_depth schema \<Longrightarrow> snd (print_schema repr limit schema indent) \<noteq> None"
  "limit < properties_depth ps \<Longrightarrow> snd (print_properties repr limit ps indent) \<noteq> None"
proof (induction repr limit schema indent and repr limit ps indent
    rule: print_schema_print_properties.induct)
  case (1 repr schema indent)
  show ?case by (simp add: py_raise_def)
next
  case (2 repr limit schema indent)
  show ?case
  proof (cases schema)
    case (JObject d)
    with "2.prems" have fp: "limit < find_properties d" by simp
    then obtain ps where mo: "map_of d ''properties'' = Some (JObject ps)"
      and pd: "limit < properties_depth ps"
      by (auto simp: find_properties_map_of split: option.splits json.splits)
    from "2.IH" [OF JObject mo refl pd]
    have "snd (print_properties repr limit ps indent) \<noteq> None" .
    then show ?thesis
      unfolding JObject print_schema.simps json.case mo option.case
      by (intro raises_seq_right raises_seq_left)
  qed (use "2.prems" in simp_all)
next
  case (3 repr limit indent)
  then show ?case by simp
next
  case (4 repr limit prop_name prop_schema rest indent)
  show ?case
  proof (cases "snd (print_schema repr limit prop_schema (indent + 4)) = None")
    case True
    with "4.IH"(1) have "\<not> limit < schema_depth prop_schema" by blast
    with "4.prems" have "limit < properties_depth rest" by simp
    from "4.IH"(2) [OF this] show ?thesis
      unfolding print_properties.simps by (intro raises_seq_right)
  next
    case False
    then show ?thesis
      unfolding print_properties.simps by (intro raises_seq_right raises_seq_left)
  qed
qed

lemma schema_depth_nested: "schema_depth (nested n) = Suc n"
  by (induction n) simp_all

lemmas run_defs = seq_def say_def skip_def py_raise_def

lemma print_schema_nested:
  "n < limit \<Longrightarrow> print_schema repr limit (nested n) indent = (nested_lines n indent, None)"
proof (induction n arbitrary: limit indent)
  case 0
  then obtain l where "limit = Suc l" by (cases limit) auto
  then show ?case by (simp add: run_defs str_json_def)
next
  case (Suc n)
  then obtain l where l: "limit = Suc l" and nl: "n < l" by (cases limit) auto
  from Suc.IH [OF nl]
  show ?case unfolding l
    by (simp add: run_defs str_json_def)
qed

lemma print_schema_nested_overflow:
  "limit \<le> n \<Longrightarrow> print_schema repr limit (nested n) indent =
     (take (3 * limit) (nested_lines n indent),
      Some (PyExc RecursionError ''maximum recursion depth exceeded''))"
proof (induction n arbitrary: limit indent)
  case 0
  then show ?case by (simp add: py_raise_def)
next
  case (Suc n)
  show ?case
  proof (cases limit)
    case 0
    then show ?thesis by (simp add: py_raise_def)
  next
    case (Suc l)
    with Suc.prems have "l \<le> n" by simp
    have three: "3 * Suc l = Suc (Suc (Suc (3 * l)))" by simp
    from Suc.IH [OF \<open>l \<le> n\<close>]
    show ?thesis unfolding Suc three
      by (simp add: run_defs str_json_def)
  qed
qed

lemma le_1000: "(1000::nat) \<le> 1000" by simp
lemma less_1000: "(999::nat) < 1000" by simp
lemma three_thousand: "(3::nat) * 1000 = 3000" by simp

text \<open>
  Claim C7 as stated fails: \<open>_print_schema\<close> has no depth cap.  With room for 1000 nested
  calls (Python's default recursion limit), a schema nested 1000 properties deep is followed
  level by level until the interpreter raises \<open>RecursionError\<close>, 3000 lines having been
  printed; a schema one level shallower is printed whole.
\<close>

theorem print_schema_no_depth_cap:
  "snd (print_schema (\<lambda>v. []) 1000 (nested 1000) 6) =
     Some (PyExc RecursionError ''maximum recursion depth exceeded'')
   \<and> fst (print_schema (\<lambda>v. []) 1000 (nested 1000) 6) = take 3000 (nested_lines 1000 6)
   \<and> print_schema (\<lambda>v. []) 1000 (nested 999) 6 = (nested_lines 999 6, None)"
  unfolding print_schema_nested_overflow [OF le_1000] print_schema_nested [OF less_1000] three_thousand fst_conv snd_conv
  by (intro conjI refl)

text \<open>
  Claim C7, amended.  \<open>_print_schema\<close> terminates on every schema (a value decoded from
  JSON is a finite tree; no cyclic value reaches it), and it follows the nesting of
  \<open>properties\<close> as deep as the schema goes, with no cap of its own: for every depth there is
  a schema of that depth, which is printed whole when the interpreter's recursion limit
  allows as many nested calls; no \<open>RecursionError\<close> arises when the limit is at least the
  schema's depth, and the call ends in an exception when the schema is deeper.
\<close>

theorem print_schema_follows_depth:
  "\<not> stack_overflow (print_schema repr (schema_depth schema) schema indent)
   \<and> (schema_depth schema \<le> limit \<longrightarrow>
        \<not> stack_overflow (print_schema repr limit schema indent))
   \<and> (limit < schema_depth schema \<longrightarrow> snd (print_schema repr limit schema indent) \<noteq> None)
   \<and> schema_depth (nested n) = Suc n
   \<and> (n < limit \<longrightarrow> print_schema repr limit (nested n) indent = (nested_lines n indent, None))"
  using print_schema_within_limit(1) [of schema "schema_depth schema" repr indent]
    print_schema_within_limit(1) [of schema limit repr indent]
    print_schema_beyond_limit(1) [of limit schema repr indent]
    schema_depth_nested [of n] print_schema_nested [of n limit repr indent]
  by blast

theorem print_schema_follows_depth_witness:
  "\<not> stack_overflow (print_schema (\<lambda>v. []) 3 (nested 2) 6)
   \<and> snd (print_schema (\<lambda>v. []) 2 (nested 2) 6) \<noteq> None
   \<and> print_schema (\<lambda>v. []) 3 (nested 2) 6 =
       ([Print ''      Type: object'', Print ''      Properties:'', Print ''        p:'',
         Print ''          Type: object'', Print ''          Properties:'',
         Print ''            p:'', Print ''              Type: object''], None)"
proof -
  have depth: "schema_depth (nested 2) = 3"
    by (simp add: schema_depth_nested)
  have lines: "nested_lines 2 6 =
       [Print ''      Type: object'', Print ''      Properties:'', Print ''        p:'',
        Print ''          Type: object'', Print ''          Properties:'',
        Print ''            p:'', Print ''              Type: object'']"
    by (simp add: numeral_eq_Suc indent_str_def)
  have a: "(3::nat) \<le> 3" and b: "(2::nat) < 3" by simp_all
  from print_schema_follows_depth
      [where schema = "nested 2" and limit = 3 and repr = "\<lambda>v. []" and indent = 6 and n = 2]
  have "\<not> stack_overflow (print_schema (\<lambda>v. []) 3 (nested 2) 6)"
    and "print_schema (\<lambda>v. []) 3 (nested 2) 6 = (nested_lines 2 6, None)"
    unfolding depth using a b by blast+
  moreover from print_schema_follows_depth
      [where schema = "nested 2" and limit = 2 and repr = "\<lambda>v. []" and indent = 6 and n = 2]
  have "snd (print_schema (\<lambda>v. []) 2 (nested 2) 6) \<noteq> None"
    unfolding depth using b by blast
  ultimately show ?thesis unfolding lines by blast
qed

section \<open>\<open>format_mcp_result\<close> where it raises\<close>

text \<open>
  Claim C9.  \<open>format_mcp_result\<close> is meant to return a string for whatever it is given,
  falling back to the raw text when a text does not parse, and it does so when the parser
  raises \<open>JSONDecodeError\<close> or \<open>AttributeError\<close>.  It is not total, though: it raises
  \<open>TypeError\<close> on a \<open>content\<close> that cannot be iterated and on a \<open>text\<close> that is not a string,
  and on a text of 4301 digits, which is of the protocol's type \<open>str\<close>, the \<open>ValueError\<close> of
  \<open>json.loads\<close> passes the handler of line 30 and leaves the function, as does the
  \<open>RecursionError\<close> on a text of 1000 opening brackets.
\<close>

theorem format_mcp_result_raises:
  "format_mcp_result limited_loads sample_dumps
     (McpResult (Some (Items [ContentItem (Some (PyStr long_digits)) ''TextContent'']))
        ''CallToolResult'') =
     Inl (PyExc ValueError digits_message)
   \<and> format_mcp_result limited_loads sample_dumps
     (McpResult (Some (Items [ContentItem (Some (PyStr deep_brackets)) ''TextContent'']))
        ''CallToolResult'') =
     Inl (PyExc RecursionError brackets_message)
   \<and> format_mcp_result limited_loads sample_dumps
     (McpResult (Some (NonIterable ''NoneType'')) ''r'') =
     Inl (PyExc TypeError (CHR 0x27 # ''NoneType'' @ CHR 0x27 # '' object is not iterable''))
   \<and> format_mcp_result limited_loads sample_dumps
     (McpResult (Some (Items [ContentItem (Some PyNone) ''item''])) ''r'') =
     Inl (PyExc TypeError ''the JSON object must be str, bytes or bytearray, not NoneType'')
   \<and> format_mcp_result (\<lambda>s. Inl (PyExc JSONDecodeError ''Expecting value: line 1 column 1 (char 0)'')) sample_dumps
     (McpResult (Some (Items [ContentItem (Some (PyStr ''hello'')) ''item''])) ''r'') = Inr ''hello''
   \<and> format_mcp_result (\<lambda>s. Inl (PyExc AttributeError [])) sample_dumps
     (McpResult (Some (Items [ContentItem (Some (PyStr ''hello'')) ''item''])) ''r'') = Inr ''hello''
   \<and> format_mcp_result limited_loads sample_dumps (McpResult None ''CallToolResult()'') =
     Inr ''CallToolResult()''"
  by (simp add: format_mcp_result_def parse_and_dump_def json_loads_def caught_def
      limited_loads_def long_digits_not_brackets)

section \<open>Properties of the specification's Session\<close>

lemma rank_session_step: "rank (state s) \<le> rank (state (snd (session_step s ev)))"
  by (cases ev; cases "state s") (simp_all split: sum.split)

lemma rank_states_along:
  "st \<in> set (states_along s evs) \<Longrightarrow> rank (state s) \<le> rank st"
proof (induction evs arbitrary: s)
  case Nil
  then show ?case by simp
next
  case (Cons ev evs)
  from Cons.prems consider "st = state s" | "st \<in> set (states_along (snd (session_step s ev)) evs)"
    by auto
  then show ?case
  proof cases
    case 1
    then show ?thesis by simp
  next
    case 2
    from Cons.IH [OF 2] rank_session_step [of s ev] show ?thesis by simp
  qed
qed

lemma sorted_states_along: "sorted (map rank (states_along s evs))"
proof (induction evs arbitrary: s)
  case Nil
  show ?case by simp
next
  case (Cons ev evs)
  have "rank (state s) \<le> rank st" if "st \<in> set (states_along (snd (session_step s ev)) evs)" for st
    using rank_states_along [OF that] rank_session_step [of s ev] by simp
  with Cons.IH [of "snd (session_step s ev)"] show ?case by auto
qed

lemma rank_session_run: "rank (state s) \<le> rank (state (session_run s evs))"
proof (induction evs arbitrary: s)
  case Nil
  show ?case by simp
next
  case (Cons ev evs)
  from Cons.IH [of "snd (session_step s ev)"] rank_session_step [of s ev]
  show ?case by simp
qed

lemma rank_Faulted: "5 \<le> rank st \<Longrightarrow> st = Faulted"
  by (cases st) simp_all

lemma request_not_ready:
  "state s \<noteq> Ready \<Longrightarrow> session_step s (Request m p) = (Some SessionNotReady, s)"
  by simp

text \<open>
  Claim C5 (on the Session modelled from the specification).  Along every execution the
  states only move forward in the order \<open>Uninitialized, Handshaking, Ready, Closing,
  Closed, Faulted\<close>; \<open>Faulted\<close> is terminal; and a request submitted while the Session is not
  \<open>Ready\<close> fails with \<open>SessionNotReady\<close> and leaves the Session unchanged, so it is not sent.
  The only request sent before \<open>Ready\<close> is the \<open>initialize\<close> of the handshake.
\<close>

theorem session_moves_forward:
  "sorted (map rank (states_along s evs))
   \<and> rank (state s) \<le> rank (state (session_run s evs))
   \<and> (state s = Faulted \<longrightarrow> state (session_run s evs) = Faulted)
   \<and> (state s \<noteq> Ready \<longrightarrow> session_step s (Request m p) = (Some SessionNotReady, s))"
proof -
  have "state (session_run s evs) = Faulted" if "state s = Faulted"
    using rank_session_run [of s evs] that by (intro rank_Faulted) simp
  with sorted_states_along [of s evs] rank_session_run [of s evs] request_not_ready [of s m p]
  show ?thesis by blast
qed

theorem session_moves_forward_witness:
  "states_along new_session
     [Connect, Handshake (Inr echo_info), Request ''tools/list'' JNull, Close, Drain, Terminate] =
     [Uninitialized, Handshaking, Ready, Ready, Closing, Closed, Faulted]
   \<and> sorted (map rank [Uninitialized, Handshaking, Ready, Ready, Closing, Closed, Faulted])
   \<and> session_step new_session (Request ''tools/list'' JNull) = (Some SessionNotReady, new_session)
   \<and> sent (session_run new_session [Request ''tools/list'' JNull, Connect,
        Request ''tools/list'' JNull, Handshake (Inr echo_info), Request ''tools/call'' JNull]) =
       [(''initialize'', JNull), (''tools/call'', JNull)]"
proof -
  have run: "states_along new_session
     [Connect, Handshake (Inr echo_info), Request ''tools/list'' JNull, Close, Drain, Terminate] =
     [Uninitialized, Handshaking, Ready, Ready, Closing, Closed, Faulted]"
    by (simp add: new_session_def)
  have start: "state new_session \<noteq> Ready"
    by (simp add: new_session_def)
  have sent: "sent (session_run new_session [Request ''tools/list'' JNull, Connect,
        Request ''tools/list'' JNull, Handshake (Inr echo_info), Request ''tools/call'' JNull]) =
       [(''initialize'', JNull), (''tools/call'', JNull)]"
    by (simp add: new_session_def)
  from session_moves_forward [of new_session
      "[Connect, Handshake (Inr echo_info), Request ''tools/list'' JNull, Close, Drain, Terminate]"
      "''tools/list''" JNull]
  have "sorted (map rank [Uninitialized, Handshaking, Ready, Ready, Closing, Closed, Faulted])"
    and "session_step new_session (Request ''tools/list'' JNull) = (Some SessionNotReady, new_session)"
    unfolding run using start by blast+
  with run sent show ?thesis by blast
qed

end
